theory Spec2Isabelle
  imports Complex_Main "HOL-Library.Log_Nat"
begin

section \<open>Python values\<close>

subsection \<open>Floats\<close>

text \<open>
  A Python \<open>float\<close> is an IEEE 754 binary64 number. A finite one is modelled by the
  rational number it denotes (the sign of a zero is not kept: no operation used here reads
  it); the two infinities and NaN are values of their own.
\<close>

datatype pyfloat = Fin rat | PosInf | NegInf | NaN

text \<open>\<open>floor_log2 r\<close> is the integer \<open>k\<close> with \<open>2^k \<le> r < 2^(k+1)\<close>, for \<open>r > 0\<close>.\<close>

definition floor_log2 :: "rat \<Rightarrow> int" where
  "floor_log2 r =
     (if 1 \<le> r then int (floorlog 2 (nat \<lfloor>r\<rfloor>)) - 1
      else - int (floorlog 2 (nat (\<lceil>1 / r\<rceil> - 1))))"

definition round_half_even :: "rat \<Rightarrow> int" where
  "round_half_even x =
     (let q = \<lfloor>x\<rfloor>; f = x - of_int q
      in if f < 1 / 2 then q else if 1 / 2 < f then q + 1
         else if even q then q else q + 1)"

text \<open>
  Rounding of an exact result to binary64: round to nearest, ties to even, 53 significant
  bits, the spacing \<open>2^-1074\<close> below the normal range, overflow to an infinity.
\<close>

definition round_binary64 :: "rat \<Rightarrow> pyfloat" where
  "round_binary64 r =
     (if r = 0 then Fin 0
      else let a = \<bar>r\<bar>;
               e = max (floor_log2 a - 52) (- 1074);
               y = of_int (round_half_even (a / 2 powi e)) * 2 powi e
           in if 2 ^ 1024 \<le> y then (if 0 < r then PosInf else NegInf)
              else Fin (sgn r * y))"

text \<open>The float that a decimal literal of the source text, such as \<open>0.1\<close>, denotes.\<close>

definition float_literal :: "rat \<Rightarrow> pyfloat" where
  "float_literal r = round_binary64 r"

text \<open>The rationals that are floats: rounding leaves them as they are.\<close>

definition is_binary64 :: "rat \<Rightarrow> bool" where
  "is_binary64 r = (round_binary64 r = Fin r)"

text \<open>\<open>a * b\<close> on floats.\<close>

fun fmul :: "pyfloat \<Rightarrow> pyfloat \<Rightarrow> pyfloat" where
  "fmul (Fin a) (Fin b) = round_binary64 (a * b)"
| "fmul NaN _ = NaN"
| "fmul _ NaN = NaN"
| "fmul (Fin a) PosInf = (if a = 0 then NaN else if 0 < a then PosInf else NegInf)"
| "fmul (Fin a) NegInf = (if a = 0 then NaN else if 0 < a then NegInf else PosInf)"
| "fmul PosInf (Fin b) = (if b = 0 then NaN else if 0 < b then PosInf else NegInf)"
| "fmul NegInf (Fin b) = (if b = 0 then NaN else if 0 < b then NegInf else PosInf)"
| "fmul PosInf PosInf = PosInf"
| "fmul PosInf NegInf = NegInf"
| "fmul NegInf PosInf = NegInf"
| "fmul NegInf NegInf = PosInf"

text \<open>\<open>a / 100.0\<close> on floats.\<close>

fun fdiv100 :: "pyfloat \<Rightarrow> pyfloat" where
  "fdiv100 (Fin a) = round_binary64 (a / 100)"
| "fdiv100 f = f"

text \<open>\<open>a <= b\<close> on floats: every comparison with NaN is false.\<close>

fun fle :: "pyfloat \<Rightarrow> pyfloat \<Rightarrow> bool" where
  "fle NaN _ = False"
| "fle _ NaN = False"
| "fle (Fin a) (Fin b) = (a \<le> b)"
| "fle NegInf _ = True"
| "fle _ PosInf = True"
| "fle _ _ = False"

subsection \<open>Errors\<close>

text \<open>
  \<open>Invalid msg\<close> is \<open>cv.Invalid(msg)\<close> as \<open>lv_validation.py\<close> raises it itself. The
  validation errors raised by the helpers that are not part of this file (all of them
  \<open>cv.Invalid\<close> or a subclass) carry the names of the specification's taxonomy. The
  remaining constructors are Python's own exceptions.
\<close>

datatype error =
    Invalid string
  | ShapeMismatch
  | RangeError
  | UnknownConstant
  | UnknownReference
  | KeyError string
  | TypeError
  | ValueError
  | OverflowError

fun is_Invalid :: "error \<Rightarrow> bool" where
  "is_Invalid (Invalid _) = True"
| "is_Invalid ShapeMismatch = True"
| "is_Invalid RangeError = True"
| "is_Invalid UnknownConstant = True"
| "is_Invalid UnknownReference = True"
| "is_Invalid _ = False"

subsection \<open>Values\<close>

text \<open>
  The dynamically typed values the validators receive and return: the values a YAML
  document holds, a lambda (\<open>cv.Lambda\<close>, with its source text), the documentation
  sentinel \<open>SCHEMA_EXTRACT\<close>, and the objects the validators and return mappers build.
\<close>

datatype pyval =
    PNone
  | PBool bool
  | PInt int
  | PFloat pyfloat
  | PStr string
  | PList "pyval list"
  | PTuple "pyval list"
  | PDict "(string \<times> pyval) list"
  | Lambda string
  | SCHEMA_EXTRACT
  | ID string
  | HexInt int
  | ConstantLiteral string
  | StringLiteral string
  | RawExpression string
  | MockObj pyval
  | LvExpr string "pyval list"
  | TimePeriodMilliseconds int

type_synonym result = "error + pyval"

text \<open>\<open>isinstance(value, int)\<close>: \<open>bool\<close> is a subclass of \<open>int\<close>.\<close>

fun isinstance_int :: "pyval \<Rightarrow> bool" where
  "isinstance_int (PInt _) = True"
| "isinstance_int (PBool _) = True"
| "isinstance_int _ = False"

fun isinstance_float :: "pyval \<Rightarrow> bool" where
  "isinstance_float (PFloat _) = True"
| "isinstance_float _ = False"

fun isinstance_Lambda :: "pyval \<Rightarrow> bool" where
  "isinstance_Lambda (Lambda _) = True"
| "isinstance_Lambda _ = False"

text \<open>The integer an \<open>int\<close> (or \<open>bool\<close>) value denotes.\<close>

fun int_value :: "pyval \<Rightarrow> int" where
  "int_value (PInt i) = i"
| "int_value (PBool b) = (if b then 1 else 0)"
| "int_value _ = 0"

text \<open>\<open>int(f)\<close> of a float truncates towards zero and raises on an infinity or NaN.\<close>

fun py_int_of_float :: "pyfloat \<Rightarrow> error + int" where
  "py_int_of_float (Fin r) = Inr (if 0 \<le> r then \<lfloor>r\<rfloor> else \<lceil>r\<rceil>)"
| "py_int_of_float NaN = Inl ValueError"
| "py_int_of_float _ = Inl OverflowError"

subsection \<open>Strings\<close>

text \<open>
  A \<open>str\<close> is the list of the bytes of its UTF-8 encoding. \<open>str.upper()\<close> and
  \<open>str.lower()\<close> follow the Unicode case mappings: on a text of ASCII characters they
  map the 26 letters and leave every other character as it is; on any other text their
  results are not modelled, and the parameters \<open>to_upper\<close> and \<open>to_lower\<close> stand for
  them (on the encoded text).
\<close>

definition ascii_upper_char :: "char \<Rightarrow> char" where
  "ascii_upper_char c =
     (case map_of (zip ''abcdefghijklmnopqrstuvwxyz'' ''ABCDEFGHIJKLMNOPQRSTUVWXYZ'') c of
        Some d \<Rightarrow> d | None \<Rightarrow> c)"

definition ascii_lower_char :: "char \<Rightarrow> char" where
  "ascii_lower_char c =
     (case map_of (zip ''ABCDEFGHIJKLMNOPQRSTUVWXYZ'' ''abcdefghijklmnopqrstuvwxyz'') c of
        Some d \<Rightarrow> d | None \<Rightarrow> c)"

definition ascii_upper :: "string \<Rightarrow> string" where
  "ascii_upper s = map ascii_upper_char s"

definition ascii_lower :: "string \<Rightarrow> string" where
  "ascii_lower s = map ascii_lower_char s"

definition is_ascii :: "string \<Rightarrow> bool" where
  "is_ascii s = list_all (\<lambda>c. (of_char c :: nat) < 128) s"

definition py_upper :: "(string \<Rightarrow> string) \<Rightarrow> string \<Rightarrow> string" where
  "py_upper to_upper s = (if is_ascii s then ascii_upper s else to_upper s)"

definition py_lower :: "(string \<Rightarrow> string) \<Rightarrow> string \<Rightarrow> string" where
  "py_lower to_lower s = (if is_ascii s then ascii_lower s else to_lower s)"

definition endswith :: "string \<Rightarrow> string \<Rightarrow> bool" where
  "endswith s suffix =
     (length suffix \<le> length s \<and> drop (length s - length suffix) s = suffix)"

definition startswith :: "string \<Rightarrow> string \<Rightarrow> bool" where
  "startswith s prefix = (take (length prefix) s = prefix)"

text \<open>\<open>s[:-n]\<close>\<close>

definition drop_last :: "nat \<Rightarrow> string \<Rightarrow> string" where
  "drop_last n s = take (length s - n) s"

text \<open>
  White space, as \<open>str.strip()\<close>, \<open>int\<close> and \<open>float\<close> skip it: the ASCII white
  space characters. The white space beyond ASCII is not modelled.
\<close>

definition is_space :: "char \<Rightarrow> bool" where
  "is_space c =
     (c \<in> set [CHR '' '', CHR 0x09, CHR 0x0A, CHR 0x0B, CHR 0x0C, CHR 0x0D,
                CHR 0x1C, CHR 0x1D, CHR 0x1E, CHR 0x1F])"

definition py_rstrip :: "string \<Rightarrow> string" where
  "py_rstrip s = rev (dropWhile is_space (rev s))"

definition py_strip :: "string \<Rightarrow> string" where
  "py_strip s = py_rstrip (dropWhile is_space s)"

text \<open>\<open>s.replace(" ", "_")\<close>\<close>

definition replace_spaces :: "string \<Rightarrow> string" where
  "replace_spaces s = map (\<lambda>c. if c = CHR '' '' then CHR ''_'' else c) s"

text \<open>\<open>sep.join(xs)\<close>\<close>

fun join :: "string \<Rightarrow> string list \<Rightarrow> string" where
  "join sep [] = []"
| "join sep [x] = x"
| "join sep (x # y # ys) = x @ sep @ join sep (y # ys)"

subsection \<open>Numbers and text\<close>

definition digit_val :: "char \<Rightarrow> nat option" where
  "digit_val =
     map_of [(CHR ''0'', 0), (CHR ''1'', 1), (CHR ''2'', 2), (CHR ''3'', 3), (CHR ''4'', 4),
             (CHR ''5'', 5), (CHR ''6'', 6), (CHR ''7'', 7), (CHR ''8'', 8), (CHR ''9'', 9),
             (CHR ''a'', 10), (CHR ''b'', 11), (CHR ''c'', 12), (CHR ''d'', 13),
             (CHR ''e'', 14), (CHR ''f'', 15),
             (CHR ''A'', 10), (CHR ''B'', 11), (CHR ''C'', 12), (CHR ''D'', 13),
             (CHR ''E'', 14), (CHR ''F'', 15)]"

definition is_dec :: "char \<Rightarrow> bool" where
  "is_dec c = (c \<in> set ''0123456789'')"

fun digits_value :: "nat \<Rightarrow> string \<Rightarrow> nat \<Rightarrow> nat option" where
  "digits_value b [] acc = Some acc"
| "digits_value b (c # cs) acc =
     (case digit_val c of
        None \<Rightarrow> None
      | Some d \<Rightarrow> if d < b then digits_value b cs (acc * b + d) else None)"

text \<open>A non-empty run of digits of base \<open>b\<close>.\<close>

definition parse_nat :: "nat \<Rightarrow> string \<Rightarrow> nat option" where
  "parse_nat b s = (if s = [] then None else digits_value b s 0)"

text \<open>An optional sign in front of a text.\<close>

fun split_sign :: "string \<Rightarrow> bool \<times> string" where
  "split_sign [] = (False, [])"
| "split_sign (c # cs) =
     (if c = CHR ''-'' then (True, cs) else if c = CHR ''+'' then (False, cs)
      else (False, c # cs))"

definition parse_signed :: "string \<Rightarrow> int option" where
  "parse_signed s =
     (case split_sign s of (neg, u) \<Rightarrow>
        map_option (\<lambda>n. if neg then - int n else int n) (parse_nat 10 u))"

text \<open>
  \<open>int(text)\<close> and \<open>int(text, base=0)\<close>: surrounding white space, a sign, decimal
  digits; with base 0 also the prefixes \<open>0x\<close>, \<open>0o\<close> and \<open>0b\<close>, and then no decimal
  number with a leading zero other than zero itself. Underscores between digits, which
  Python also reads, are left out. \<open>None\<close> stands for \<open>ValueError\<close>.
\<close>

definition py_int_of_str :: "bool \<Rightarrow> string \<Rightarrow> int option" where
  "py_int_of_str base0 s =
     (case split_sign (py_strip s) of (neg, u) \<Rightarrow>
        map_option (\<lambda>n. if neg then - int n else int n)
          (if base0 then
             (case u of
                c # x # r \<Rightarrow>
                  if c = CHR ''0'' then
                    (if x = CHR ''x'' \<or> x = CHR ''X'' then parse_nat 16 r
                     else if x = CHR ''o'' \<or> x = CHR ''O'' then parse_nat 8 r
                     else if x = CHR ''b'' \<or> x = CHR ''B'' then parse_nat 2 r
                     else if list_all (\<lambda>d. d = CHR ''0'') (x # r) then Some 0 else None)
                  else parse_nat 10 u
              | _ \<Rightarrow> parse_nat 10 u)
           else parse_nat 10 u))"

text \<open>
  An unsigned decimal number: digits with an optional fraction and an optional exponent,
  read exactly.
\<close>

definition parse_decimal :: "string \<Rightarrow> rat option" where
  "parse_decimal s =
     (let ip = takeWhile is_dec s;
          r1 = dropWhile is_dec s;
          fp = (case r1 of [] \<Rightarrow> [] | c # t \<Rightarrow> if c = CHR ''.'' then takeWhile is_dec t else []);
          r2 = (case r1 of [] \<Rightarrow> [] | c # t \<Rightarrow> if c = CHR ''.'' then dropWhile is_dec t else r1);
          ex = (case r2 of [] \<Rightarrow> Some 0
                | c # t \<Rightarrow> if c = CHR ''e'' \<or> c = CHR ''E'' then parse_signed t else None)
      in case (parse_nat 10 (ip @ fp), ex) of
           (Some n, Some x) \<Rightarrow> Some (of_nat n * 10 powi (x - int (length fp)))
         | _ \<Rightarrow> None)"

text \<open>
  \<open>float(text)\<close>: surrounding white space, a sign, then \<open>inf\<close>, \<open>infinity\<close> or \<open>nan\<close>
  in any case, or a decimal number, rounded to the nearest float. Underscores between
  digits are left out. \<open>None\<close> stands for \<open>ValueError\<close>.
\<close>

definition py_float_of_str :: "string \<Rightarrow> pyfloat option" where
  "py_float_of_str s =
     (case split_sign (py_strip s) of (neg, u) \<Rightarrow>
        if ascii_lower u = ''inf'' \<or> ascii_lower u = ''infinity''
        then Some (if neg then NegInf else PosInf)
        else if ascii_lower u = ''nan'' then Some NaN
        else map_option (\<lambda>r. round_binary64 (if neg then - r else r)) (parse_decimal u))"

text \<open>\<open>str(n)\<close> of an integer.\<close>

fun str_nat :: "nat \<Rightarrow> string" where
  "str_nat n =
     (if n < 10 then [''0123456789'' ! n]
      else str_nat (n div 10) @ [''0123456789'' ! (n mod 10)])"

declare str_nat.simps [simp del]

definition str_int :: "int \<Rightarrow> string" where
  "str_int i = (if i < 0 then CHR ''-'' # str_nat (nat (- i)) else str_nat (nat i))"

text \<open>The three octal digits of a byte: the format \<open>03o\<close>.\<close>

definition octal3 :: "nat \<Rightarrow> string" where
  "octal3 n = [''01234567'' ! (n div 64 mod 8), ''01234567'' ! (n div 8 mod 8),
               ''01234567'' ! (n mod 8)]"

text \<open>
  Modelled from the spec: \<open>cpp_string_escape\<close> (\<open>esphome/helpers.py\<close>) is not under
  \<open>src/\<close>; it is the "literal-escaping utility for producing safely quoted string
  tokens": the text between double quotes, with every byte outside the printable ASCII
  range, every backslash and every double quote written as a backslash and three octal
  digits.
\<close>

definition should_escape :: "char \<Rightarrow> bool" where
  "should_escape c =
     (if \<not> (32 \<le> (of_char c :: nat) \<and> (of_char c :: nat) < 127) then True
      else if c = CHR 0x5C \<or> c = CHR 0x22 then True
      else False)"

definition cpp_string_escape :: "string \<Rightarrow> string" where
  "cpp_string_escape s =
     CHR 0x22 #
     concat (map (\<lambda>c. if should_escape c then CHR 0x5C # octal3 (of_char c) else [c]) s) @
     [CHR 0x22]"

text \<open>
  \<open>str(x)\<close>. The texts of floats, containers and other objects are not modelled: for
  them the function \<open>other\<close> stands.
\<close>

fun py_str :: "(pyval \<Rightarrow> string) \<Rightarrow> pyval \<Rightarrow> string" where
  "py_str other (PStr s) = s"
| "py_str other (PInt i) = str_int i"
| "py_str other (PBool b) = (if b then ''True'' else ''False'')"
| "py_str other PNone = ''None''"
| "py_str other (Lambda src) = src"
| "py_str other (ID n) = n"
| "py_str other (RawExpression t) = t"
| "py_str other (StringLiteral s) = cpp_string_escape s"
| "py_str other v = other v"

text \<open>The elements a \<open>for\<close> loop over a value visits.\<close>

fun py_iter :: "pyval \<Rightarrow> error + pyval list" where
  "py_iter (PList xs) = Inr xs"
| "py_iter (PTuple xs) = Inr xs"
| "py_iter (PStr s) = Inr (map (\<lambda>c. PStr [c]) s)"
| "py_iter (PDict d) = Inr (map (\<lambda>kv. PStr (fst kv)) d)"
| "py_iter _ = Inl TypeError"

section \<open>The helpers of the validators\<close>

subsection \<open>Configuration validation\<close>

text \<open>
  Modelled from the spec: \<open>esphome/config_validation.py\<close> (\<open>cv\<close>) is not under
  \<open>src/\<close>. \<open>cv.float_\<close> converts a number or a numeric text to a float and
  \<open>cv.float_range\<close> then checks the closed range; every rejection is a validation
  error (ShapeMismatch for a value that is no number, RangeError outside the range).
\<close>

fun cv_float :: "pyval \<Rightarrow> error + pyfloat" where
  "cv_float (PFloat f) = Inr f"
| "cv_float (PInt i) =
     (case round_binary64 (of_int i) of Fin r \<Rightarrow> Inr (Fin r) | _ \<Rightarrow> Inl OverflowError)"
| "cv_float (PBool b) = Inr (Fin (if b then 1 else 0))"
| "cv_float (PStr s) =
     (case py_float_of_str s of Some f \<Rightarrow> Inr f | None \<Rightarrow> Inl ShapeMismatch)"
| "cv_float _ = Inl ShapeMismatch"

text \<open>
  Modelled from the spec: \<open>cv.float_range(min, max)\<close> is not under \<open>src/\<close>; it accepts
  a "float in [min, max]" and fails with RangeError outside the range.
\<close>

definition cv_float_range :: "pyfloat \<Rightarrow> pyfloat \<Rightarrow> pyval \<Rightarrow> error + pyfloat" where
  "cv_float_range lo hi value =
     (case cv_float value of
        Inl e \<Rightarrow> Inl e
      | Inr f \<Rightarrow> if \<not> fle lo f then Inl RangeError
                else if \<not> fle f hi then Inl RangeError else Inr f)"

text \<open>
  Modelled from the spec: \<open>cv.percentage\<close> accepts a "percentage (0.0-1.0)": a text
  ending in \<open>%\<close> is the number in front of the sign divided by \<open>100.0\<close>, any other
  value is read as a float; the result must lie in the closed range from 0 to 1.
\<close>

definition cv_percentage :: "pyval \<Rightarrow> error + pyfloat" where
  "cv_percentage value =
     (case value of
        PStr s \<Rightarrow>
          if endswith s ''%'' then
            (case py_float_of_str (py_rstrip (drop_last 1 s)) of
               None \<Rightarrow> Inl ShapeMismatch
             | Some f \<Rightarrow> cv_float_range (Fin 0) (Fin 1) (PFloat (fdiv100 f)))
          else cv_float_range (Fin 0) (Fin 1) value
      | _ \<Rightarrow> cv_float_range (Fin 0) (Fin 1) value)"

text \<open>
  Modelled from the spec: \<open>cv.int_\<close> accepts an integer, a float without fractional
  part, and a text that \<open>int\<close> reads (with \<open>base=0\<close> when it is longer than two
  characters).
\<close>

fun cv_int :: "pyval \<Rightarrow> error + int" where
  "cv_int (PInt i) = Inr i"
| "cv_int (PBool b) = Inr (if b then 1 else 0)"
| "cv_int (PFloat (Fin r)) = (if of_int \<lfloor>r\<rfloor> = r then Inr \<lfloor>r\<rfloor> else Inl ShapeMismatch)"
| "cv_int (PFloat NaN) = Inl ValueError"
| "cv_int (PFloat _) = Inl OverflowError"
| "cv_int (PStr s) =
     (case py_int_of_str (2 < length s) s of Some i \<Rightarrow> Inr i | None \<Rightarrow> Inl ShapeMismatch)"
| "cv_int _ = Inl ShapeMismatch"

text \<open>
  Modelled from the spec: \<open>cv.one_of(*values, lower=True)\<close> and
  \<open>cv.one_of(*values, upper=True)\<close> accept a text that, with its spaces replaced by
  underscores and its case mapped (by \<open>str.lower()\<close> or \<open>str.upper()\<close>, the
  \<open>case_mapping\<close>), is one of the values; "no numeric or structural inputs are accepted
  at this layer".
\<close>

definition cv_one_of :: "string list \<Rightarrow> (string \<Rightarrow> string) \<Rightarrow> pyval \<Rightarrow> result" where
  "cv_one_of values case_mapping value =
     (case value of
        PStr s \<Rightarrow>
          (let t = case_mapping (replace_spaces s)
           in if t \<in> set values then Inr (PStr t) else Inl UnknownConstant)
      | _ \<Rightarrow> Inl ShapeMismatch)"

text \<open>
  Modelled from the spec: \<open>cv.use_id(type)\<close> is the "lookup-by-identifier resolution for
  declared entities", which fails with UnknownReference when the "identifier does not
  resolve to a declared entity of the required capability". \<open>declared\<close> maps the
  identifiers of the configuration to the types of their entities.
\<close>

datatype entity_type = Font | ColorStruct | Sensor | BinarySensor | TextSensor

definition cv_use_id :: "(string \<rightharpoonup> entity_type) \<Rightarrow> entity_type \<Rightarrow> pyval \<Rightarrow> result" where
  "cv_use_id declared ty value =
     (case value of
        PStr n \<Rightarrow> if declared n = Some ty then Inr (ID n) else Inl UnknownReference
      | _ \<Rightarrow> Inl UnknownReference)"

text \<open>
  Modelled from the spec: \<open>cv.returning_lambda\<close> is not under \<open>src/\<close>; an inline code
  expression is a "pass-through as raw code".
\<close>

definition cv_returning_lambda :: "pyval \<Rightarrow> result" where
  "cv_returning_lambda value = Inr value"

text \<open>
  Modelled from the spec: \<open>cv.string\<close> accepts a "string literal".
\<close>

definition cv_string :: "pyval \<Rightarrow> result" where
  "cv_string value = (case value of PStr s \<Rightarrow> Inr value | _ \<Rightarrow> Inl ShapeMismatch)"

text \<open>
  \<open>cv.Any(*validators)\<close> is \<open>voluptuous.Any\<close>: the result of the first validator
  that accepts the value; when none does, the first validation error. An exception that is
  no validation error is not caught.
\<close>

fun any_exec :: "error option \<Rightarrow> (pyval \<Rightarrow> result) list \<Rightarrow> pyval \<Rightarrow> result" where
  "any_exec err [] v =
     Inl (case err of Some e \<Rightarrow> e | None \<Rightarrow> Invalid ''no valid value found'')"
| "any_exec err (f # fs) v =
     (case f v of
        Inr x \<Rightarrow> Inr x
      | Inl e \<Rightarrow>
          if is_Invalid e
          then any_exec (Some (case err of None \<Rightarrow> e | Some e0 \<Rightarrow> e0)) fs v
          else Inl e)"

definition cv_Any :: "(pyval \<Rightarrow> result) list \<Rightarrow> pyval \<Rightarrow> result" where
  "cv_Any fs v = any_exec None fs v"

text \<open>
  Modelled from the spec: \<open>cv.positive_time_period_milliseconds\<close> is the
  "duration-parsing primitive accepting human-readable time spans and normalizing to
  milliseconds": a number and a unit, not negative, a whole number of milliseconds.
  The factors convert a unit to milliseconds.
\<close>

definition time_units :: "(string \<times> rat) list" where
  "time_units =
     [(''us'', 1 / 1000), (''microseconds'', 1 / 1000),
      (''ms'', 1), (''milliseconds'', 1),
      (''s'', 1000), (''sec'', 1000), (''seconds'', 1000),
      (''min'', 60000), (''minutes'', 60000),
      (''h'', 3600000), (''hours'', 3600000),
      (''d'', 86400000), (''days'', 86400000)]"

text \<open>
  Modelled from the spec: the reading of a human-readable time span, a part of
  \<open>cv.positive_time_period_milliseconds\<close>, which is not under \<open>src/\<close>: an optional
  sign, a decimal number, optional white space and a unit; the result is in milliseconds.
\<close>

definition parse_time_period :: "string \<Rightarrow> rat option" where
  "parse_time_period s =
     (case split_sign s of (neg, u) \<Rightarrow>
        (let num = takeWhile (\<lambda>c. is_dec c \<or> c = CHR ''.'') u;
             unit = dropWhile is_space (dropWhile (\<lambda>c. is_dec c \<or> c = CHR ''.'') u)
         in case (parse_decimal num, map_of time_units unit) of
              (Some x, Some f) \<Rightarrow> Some ((if neg then - x else x) * f)
            | _ \<Rightarrow> None))"

text \<open>
  Modelled from the spec: \<open>cv.positive_time_period_milliseconds\<close> is not under
  \<open>src/\<close>; it accepts a "positive duration" and gives the "duration in whole
  milliseconds".
\<close>

definition cv_positive_time_period_milliseconds :: "pyval \<Rightarrow> result" where
  "cv_positive_time_period_milliseconds value =
     (case value of
        PStr s \<Rightarrow>
          (case parse_time_period s of
             None \<Rightarrow> Inl ShapeMismatch
           | Some ms \<Rightarrow>
               if ms < 0 then Inl RangeError
               else if of_int \<lfloor>ms\<rfloor> \<noteq> ms then Inl ShapeMismatch
               else Inr (TimePeriodMilliseconds \<lfloor>ms\<rfloor>))
      | _ \<Rightarrow> Inl ShapeMismatch)"

text \<open>
  Modelled from the spec: \<open>x.total_milliseconds\<close> of the duration object, whose class is
  not under \<open>src/\<close>: the "duration in whole milliseconds".
\<close>

fun total_milliseconds :: "pyval \<Rightarrow> result" where
  "total_milliseconds (TimePeriodMilliseconds ms) = Inr (PInt ms)"
| "total_milliseconds _ = Inl TypeError"

subsection \<open>The generic validator and the constant sets\<close>

text \<open>
  Modelled from the spec: class \<open>LValidator\<close> (\<open>defines.py\<close>) is not under \<open>src/\<close>.
  Calling it invokes the validation rule, whose failure propagates; a lambda is one of the
  accepted shapes of every validator and passes through.
\<close>

definition LValidator_call :: "(pyval \<Rightarrow> result) \<Rightarrow> pyval \<Rightarrow> result" where
  "LValidator_call validator value =
     (case value of Lambda src \<Rightarrow> cv_returning_lambda value | _ \<Rightarrow> validator value)"

text \<open>
  Modelled from the spec: \<open>LValidator.process\<close> is not under \<open>src/\<close>; "emit returns an
  accessor expression (accessor-template bound to that entity)" for a reference to a
  declared entity and "otherwise calls the return-mapper on the literal value".
\<close>

definition LValidator_process :: "string option \<Rightarrow> (pyval \<Rightarrow> result) \<Rightarrow> pyval \<Rightarrow> result" where
  "LValidator_process idexpr retmapper value =
     (case value of
        ID n \<Rightarrow>
          (case idexpr of
             Some accessor \<Rightarrow> Inr (RawExpression (n @ ''->'' @ accessor))
           | None \<Rightarrow> retmapper value)
      | _ \<Rightarrow> retmapper value)"

text \<open>
  Modelled from the spec: class \<open>LvConstant\<close> (\<open>defines.py\<close>) is not under \<open>src/\<close>.
  Its \<open>one_of\<close> validator "uppercases the input" and validates it "against the
  allowed-suffix set under the fixed prefix", the prefix being optional in the input; in
  documentation mode it enumerates the choices.
\<close>

definition LvConstant_validator ::
    "(string \<Rightarrow> string) \<Rightarrow> string \<Rightarrow> string list \<Rightarrow> pyval \<Rightarrow> result" where
  "LvConstant_validator to_upper prefix choices value =
     (if value = SCHEMA_EXTRACT then Inr (PTuple (map PStr choices))
      else case value of
        PStr s \<Rightarrow>
          if startswith (py_upper to_upper s) prefix
          then cv_one_of (map (\<lambda>c. prefix @ c) choices) (py_upper to_upper) value
          else (case cv_one_of choices (py_upper to_upper) value of
                  Inr (PStr t) \<Rightarrow> Inr (PStr (prefix @ t))
                | r \<Rightarrow> r)
      | _ \<Rightarrow> cv_one_of choices (py_upper to_upper) value)"

text \<open>
  Modelled from the spec: the attribute \<open>one_of\<close> of an \<open>LvConstant\<close>, the generic
  validator built from its validation rule.
\<close>

definition LvConstant_one_of ::
    "(string \<Rightarrow> string) \<Rightarrow> string \<Rightarrow> string list \<Rightarrow> pyval \<Rightarrow> result" where
  "LvConstant_one_of to_upper prefix choices =
     LValidator_call (LvConstant_validator to_upper prefix choices)"

text \<open>
  Modelled from the spec: \<open>cg.safe_exp\<close> (the literal/expression builder) is not under
  \<open>src/\<close>; it wraps a text into a string literal, which is rendered escaped.
\<close>

fun cg_safe_exp :: "pyval \<Rightarrow> pyval" where
  "cg_safe_exp (PStr s) = StringLiteral s"
| "cg_safe_exp v = v"

text \<open>
  Modelled from the spec: \<open>CONF_ARGS\<close> of \<open>esphome/const.py\<close>, which is not under
  \<open>src/\<close>: the key \<open>args\<close> of the structured text map.
\<close>

definition CONF_ARGS :: string where
  "CONF_ARGS = ''args''"

text \<open>
  Modelled from the spec: \<open>CONF_COLOR\<close> of \<open>esphome/const.py\<close>, which is not under
  \<open>src/\<close>: the name of the colour component.
\<close>

definition CONF_COLOR :: string where
  "CONF_COLOR = ''color''"

text \<open>
  Modelled from the spec: \<open>CONF_FORMAT\<close> of \<open>esphome/const.py\<close>, which is not under
  \<open>src/\<close>: the key \<open>format\<close> of the structured text map.
\<close>

definition CONF_FORMAT :: string where
  "CONF_FORMAT = ''format''"

subsection \<open>The resource-usage accumulators\<close>

text \<open>
  Modelled from the spec: the three process-wide sets of \<open>helpers.py\<close>, which is not
  under \<open>src/\<close>: the built-in fonts referenced, the font assets referenced and the
  optional components required.
\<close>

record registries =
  lv_fonts_used :: "pyval set"
  esphome_fonts_used :: "pyval set"
  lvgl_components_required :: "string set"

type_synonym 'a effect = "registries \<Rightarrow> 'a \<times> registries"

text \<open>
  Modelled from the spec: \<open>requires_component\<close> (\<open>helpers.py\<close>) is not under \<open>src/\<close>;
  it records the companion component as required and returns the value.
\<close>

definition requires_component :: "string \<Rightarrow> pyval \<Rightarrow> result effect" where
  "requires_component component value reg =
     (Inr value,
      reg\<lparr>lvgl_components_required := insert component (lvgl_components_required reg)\<rparr>)"

section \<open>The validators of \<open>lv_validation.py\<close>\<close>

definition literal_mapper :: "pyval \<Rightarrow> pyval" where
  "literal_mapper value = (case value of PStr s \<Rightarrow> ConstantLiteral s | _ \<Rightarrow> value)"

text \<open>\<open>int(value * n)\<close> for a float \<open>value\<close> and an integer literal \<open>n\<close>.\<close>

definition int_of_scaled :: "pyfloat \<Rightarrow> int \<Rightarrow> result" where
  "int_of_scaled value n = map_sum id PInt (py_int_of_float (fmul value (Fin (of_int n))))"

subsection \<open>Opacity\<close>

text \<open>\<open>opacity_consts = LvConstant("LV_OPA_", "TRANSP", "COVER")\<close>\<close>

definition opacity_consts_prefix :: string where
  "opacity_consts_prefix = ''LV_OPA_''"

definition opacity_consts_choices :: "string list" where
  "opacity_consts_choices = [''TRANSP'', ''COVER'']"

definition opacity_validator :: "(string \<Rightarrow> string) \<Rightarrow> pyval \<Rightarrow> result" where
  "opacity_validator to_upper value =
     (if value = SCHEMA_EXTRACT then Inr (PTuple (map PStr opacity_consts_choices))
      else case cv_Any [\<lambda>v. map_sum id PFloat (cv_percentage v),
                        LvConstant_one_of to_upper opacity_consts_prefix
                          opacity_consts_choices] value of
             Inl e \<Rightarrow> Inl e
           | Inr (PFloat f) \<Rightarrow> int_of_scaled f 255
           | Inr value' \<Rightarrow> Inr value')"

subsection \<open>Colour\<close>

definition color :: "(string \<rightharpoonup> entity_type) \<Rightarrow> pyval \<Rightarrow> result" where
  "color declared value =
     (if value = SCHEMA_EXTRACT then Inr (PList [PStr ''hex color value'', PStr ''color ID''])
      else if isinstance_int value then Inr value
      else cv_use_id declared ColorStruct value)"

text \<open>
  \<open>lv_expr.color_hex(x)\<close> and \<open>lv_expr.color_from(x)\<close> are the calls
  \<open>LvExpr ''color_hex'' [x]\<close> and \<open>LvExpr ''color_from'' [x]\<close>.
\<close>

definition color_retmapper :: "pyval \<Rightarrow> result effect" where
  "color_retmapper value reg =
     (if isinstance_Lambda value then (cv_returning_lambda value, reg)
      else if isinstance_int value
      then (Inr (LvExpr ''color_hex'' [HexInt (int_value value)]), reg)
      else (Inr (LvExpr ''color_from'' [MockObj value]),
            reg\<lparr>lvgl_components_required :=
                  insert CONF_COLOR (lvgl_components_required reg)\<rparr>))"

subsection \<open>Lengths and sizes\<close>

text \<open>\<open>f"lv_pct({int(cv.percentage(value) * 100)})"\<close>\<close>

definition lv_pct :: "pyval \<Rightarrow> result" where
  "lv_pct value =
     (case cv_percentage value of
        Inl e \<Rightarrow> Inl e
      | Inr p \<Rightarrow>
          (case py_int_of_float (fmul p (Fin 100)) of
             Inl e \<Rightarrow> Inl e
           | Inr n \<Rightarrow> Inr (PStr (''lv_pct('' @ str_int n @ '')''))))"

definition pixels_or_percent_validator :: "pyval \<Rightarrow> result" where
  "pixels_or_percent_validator value =
     (if value = SCHEMA_EXTRACT then Inr (PList [PStr ''pixels'', PStr ''..%''])
      else if isinstance_int value then map_sum id PInt (cv_int value)
      else lv_pct value)"

definition size_error :: error where
  "size_error = Invalid ''must be 'size_content', a pixel position or a percentage''"

definition size_validator ::
    "(string \<Rightarrow> string) \<Rightarrow> (string \<Rightarrow> string) \<Rightarrow> pyval \<Rightarrow> result" where
  "size_validator to_upper to_lower value0 =
     (if value0 = SCHEMA_EXTRACT
      then Inr (PList [PStr ''size_content'', PStr ''pixels'', PStr ''..%''])
      else
        case (case value0 of
                PStr s \<Rightarrow>
                  if endswith (py_lower to_lower s) ''px''
                  then map_sum id PInt (cv_int (PStr (drop_last 2 s)))
                  else Inr value0
              | _ \<Rightarrow> Inr value0) of
          Inl e \<Rightarrow> Inl e
        | Inr value \<Rightarrow>
            (case value of
               PStr s \<Rightarrow>
                 if \<not> endswith s ''%'' then
                   (if py_upper to_upper s = ''SIZE_CONTENT''
                    then Inr (PStr ''LV_SIZE_CONTENT'')
                    else Inl size_error)
                 else lv_pct value
             | _ \<Rightarrow>
                 if isinstance_int value then map_sum id PInt (cv_int value)
                 else lv_pct value))"

definition size :: "(string \<Rightarrow> string) \<Rightarrow> (string \<Rightarrow> string) \<Rightarrow> pyval \<Rightarrow> result" where
  "size to_upper to_lower = LValidator_call (size_validator to_upper to_lower)"

subsection \<open>Radius\<close>

text \<open>\<open>radius_consts = LvConstant("LV_RADIUS_", "CIRCLE")\<close>\<close>

definition radius_consts_prefix :: string where
  "radius_consts_prefix = ''LV_RADIUS_''"

definition radius_consts_choices :: "string list" where
  "radius_consts_choices = [''CIRCLE'']"

definition radius_validator ::
    "(string \<Rightarrow> string) \<Rightarrow> (string \<Rightarrow> string) \<Rightarrow> pyval \<Rightarrow> result" where
  "radius_validator to_upper to_lower value =
     (if value = SCHEMA_EXTRACT then Inr (PTuple (map PStr radius_consts_choices))
      else case cv_Any [size to_upper to_lower,
                        \<lambda>v. map_sum id PFloat (cv_percentage v),
                        LvConstant_one_of to_upper radius_consts_prefix
                          radius_consts_choices] value of
             Inl e \<Rightarrow> Inl e
           | Inr (PFloat f) \<Rightarrow> int_of_scaled f 255
           | Inr value' \<Rightarrow> Inr value')"

subsection \<open>Zoom, identifiers, durations\<close>

definition zoom :: "pyval \<Rightarrow> result" where
  "zoom value =
     (case cv_float_range (float_literal (1 / 10)) (float_literal 10) value of
        Inl e \<Rightarrow> Inl e
      | Inr f \<Rightarrow> int_of_scaled f 256)"

text \<open>\<open>cv.validate_id_name\<close>, which is not under \<open>src/\<close>, is a parameter.\<close>

definition id_name :: "(pyval \<Rightarrow> result) \<Rightarrow> pyval \<Rightarrow> result" where
  "id_name validate_id_name value =
     (if value = SCHEMA_EXTRACT then Inr (PStr ''id'') else validate_id_name value)"

definition lvms_validator :: "pyval \<Rightarrow> result" where
  "lvms_validator value =
     cv_positive_time_period_milliseconds
       (if value = PStr ''never'' then PStr ''2147483647ms'' else value)"

text \<open>The return mapper of \<open>lv_milliseconds\<close>: \<open>lambda x: x.total_milliseconds\<close>.\<close>

definition lv_milliseconds_retmapper :: "pyval \<Rightarrow> result" where
  "lv_milliseconds_retmapper x = total_milliseconds x"

subsection \<open>Text\<close>

text \<open>
  \<open>TextValidator.__call__\<close> and \<open>TextValidator.process\<close>; the validator is built
  from \<open>cv.string\<close>, the accessor \<open>get_state().c_str()\<close> and the return mapper
  \<open>lambda s: cg.safe_exp(f"{s}")\<close>.
\<close>

definition TextValidator_call :: "pyval \<Rightarrow> result" where
  "TextValidator_call value =
     (case value of PDict d \<Rightarrow> Inr value | _ \<Rightarrow> LValidator_call cv_string value)"

definition TextValidator_retmapper :: "(pyval \<Rightarrow> string) \<Rightarrow> pyval \<Rightarrow> result" where
  "TextValidator_retmapper other s = Inr (cg_safe_exp (PStr (py_str other s)))"

definition TextValidator_process :: "(pyval \<Rightarrow> string) \<Rightarrow> pyval \<Rightarrow> result" where
  "TextValidator_process other value =
     (case value of
        PDict d \<Rightarrow>
          (case map_of d CONF_ARGS of
             None \<Rightarrow> Inl (KeyError CONF_ARGS)
           | Some a \<Rightarrow>
               (case py_iter a of
                  Inl e \<Rightarrow> Inl e
                | Inr xs \<Rightarrow>
                    (let args = map (py_str other) xs;
                         arg_expr = RawExpression (join '','' args)
                     in case map_of d CONF_FORMAT of
                          None \<Rightarrow> Inl (KeyError CONF_FORMAT)
                        | Some (PStr fmt) \<Rightarrow>
                            (let format_str = cpp_string_escape fmt
                             in Inr (PStr (''str_sprintf('' @ format_str @ '', '' @
                                           py_str other arg_expr @ '').c_str()'')))
                        | Some _ \<Rightarrow> Inl TypeError)))
      | _ \<Rightarrow>
          LValidator_process (Some ''get_state().c_str()'') (TextValidator_retmapper other)
            value)"

subsection \<open>Fonts\<close>

text \<open>
  The table \<open>LV_FONTS\<close> of the built-in font names (\<open>defines.py\<close>) is not under
  \<open>src/\<close>: it is a parameter.
\<close>

definition is_lv_font :: "(string \<Rightarrow> string) \<Rightarrow> string list \<Rightarrow> pyval \<Rightarrow> bool" where
  "is_lv_font to_lower LV_FONTS font =
     (case font of PStr s \<Rightarrow> py_lower to_lower s \<in> set LV_FONTS | _ \<Rightarrow> False)"

definition lv_builtin_font ::
    "(string \<Rightarrow> string) \<Rightarrow> string list \<Rightarrow> pyval \<Rightarrow> result effect" where
  "lv_builtin_font to_lower LV_FONTS value reg =
     (case cv_one_of LV_FONTS (py_lower to_lower) value of
        Inl e \<Rightarrow> (Inl e, reg)
      | Inr fontval \<Rightarrow>
          (Inr fontval, reg\<lparr>lv_fonts_used := insert fontval (lv_fonts_used reg)\<rparr>))"

definition LvFont_validator ::
    "(string \<Rightarrow> string) \<Rightarrow> string list \<Rightarrow> (string \<rightharpoonup> entity_type) \<Rightarrow> pyval \<Rightarrow>
       result effect" where
  "LvFont_validator to_lower LV_FONTS declared value reg =
     (if value = SCHEMA_EXTRACT then (Inr (PList (map PStr LV_FONTS)), reg)
      else if is_lv_font to_lower LV_FONTS value
      then lv_builtin_font to_lower LV_FONTS value reg
      else case cv_use_id declared Font value of
             Inl e \<Rightarrow> (Inl e, reg)
           | Inr fontval \<Rightarrow>
               requires_component ''font'' fontval
                 (reg\<lparr>esphome_fonts_used := insert fontval (esphome_fonts_used reg)\<rparr>))"

definition LvFont_process ::
    "(string \<Rightarrow> string) \<Rightarrow> string list \<Rightarrow> (pyval \<Rightarrow> string) \<Rightarrow> pyval \<Rightarrow> result" where
  "LvFont_process to_lower LV_FONTS other value =
     (if is_lv_font to_lower LV_FONTS value
      then Inr (ConstantLiteral (''&lv_font_'' @ py_str other value))
      else Inr (ConstantLiteral (py_str other value @ ''_engine->get_lv_font()'')))"

text \<open>A validator that does not touch the accumulators, as an effect on them.\<close>

definition pure_validator :: "(pyval \<Rightarrow> result) \<Rightarrow> pyval \<Rightarrow> result effect" where
  "pure_validator f value reg = (f value, reg)"

section \<open>Facts about the float arithmetic\<close>

lemma floorlog2_pos: "0 < n \<Longrightarrow> 0 < floorlog 2 n"
  by (simp add: floorlog_def)

lemma floor_log2_bounds_lt1:
  assumes "0 < r" "\<not> 1 \<le> r"
  shows "2 powi (floor_log2 r) \<le> r \<and> r < 2 powi (floor_log2 r + 1)"
proof -
  define x where "x = 1 / r"
  define N where "N = nat (\<lceil>x\<rceil> - 1)"
  have x1: "1 < x" using assms by (simp add: x_def)
  have x0: "0 < x" using x1 by simp
  have rx: "r = 1 / x" using assms by (simp add: x_def)
  have cx: "2 \<le> \<lceil>x\<rceil>" using x1 by linarith
  have N: "0 < N" using cx by (simp add: N_def)
  have NN: "int N = \<lceil>x\<rceil> - 1" using cx by (simp add: N_def)
  define j where "j = floorlog 2 N"
  have k: "floor_log2 r = - int j" using assms by (simp add: floor_log2_def N_def x_def j_def)
  have j: "0 < j" unfolding j_def using N by (rule floorlog2_pos)
  from floorlog_bounds[of N 2] N have b: "2 ^ (j - 1) \<le> N" "N < 2 ^ j" by (auto simp: j_def)
  have "int N < int (2 ^ j)" using b(2) by (simp only: of_nat_less_iff)
  then have "\<lceil>x\<rceil> \<le> 2 ^ j" using NN by simp
  then have "x \<le> of_int (2 ^ j)" by (simp only: ceiling_le_iff)
  then have xj: "x \<le> 2 ^ j" by simp
  have p0: "(0::rat) < 2 ^ j" by simp
  have "1 / (2::rat) ^ j \<le> 1 / x" using xj x0 p0 by (simp add: frac_le)
  then have lo: "2 powi (- int j) \<le> r" unfolding rx power_int_def
    using j by (simp add: inverse_eq_divide power_one_over)
  have "int (2 ^ (j - 1)) \<le> int N" using b(1) by (simp only: of_nat_le_iff)
  then have "of_int (int (2 ^ (j - 1))) < x" using NN by linarith
  then have xl: "2 ^ (j - 1) < x" by simp
  have "1 / x < 1 / (2::rat) ^ (j - 1)" using xl by (simp add: frac_less2)
  moreover have "(2::rat) powi (- int j + 1) = 1 / 2 ^ (j - 1)"
  proof (cases "j = 1")
    case True then show ?thesis by simp
  next
    case False
    then have "- int j + 1 < 0" "nat (int j - 1) = j - 1" using j by auto
    then show ?thesis unfolding power_int_def by (simp add: inverse_eq_divide power_one_over)
  qed
  ultimately have hi: "r < 2 powi (- int j + 1)" using rx by simp
  show ?thesis using lo hi by (simp add: k)
qed

lemma floor_log2_bounds_ge1:
  assumes "1 \<le> r"
  shows "2 powi (floor_log2 r) \<le> r \<and> r < 2 powi (floor_log2 r + 1)"
proof -
  define n where "n = nat \<lfloor>r\<rfloor>"
  have n: "0 < n" using assms by (simp add: n_def)
  have k: "floor_log2 r = int (floorlog 2 n) - 1" using assms by (simp add: floor_log2_def n_def)
  have fl: "0 < floorlog 2 n" using n by (rule floorlog2_pos)
  from floorlog_bounds[of n 2] n have b: "2 ^ (floorlog 2 n - 1) \<le> n" "n < 2 ^ floorlog 2 n" by auto
  have fr: "0 \<le> \<lfloor>r\<rfloor>" using assms by simp
  have "rat_of_nat n = of_int \<lfloor>r\<rfloor>" unfolding n_def using fr by simp
  then have nr: "rat_of_nat n \<le> r" "r < rat_of_nat n + 1"
    by linarith+
  have e1: "nat (int (floorlog 2 n) - 1) = floorlog 2 n - 1" by simp
  have e2: "nat (int (floorlog 2 n) - 1 + 1) = floorlog 2 n" by simp
  have "2 powi (floor_log2 r) = (2::rat) ^ (floorlog 2 n - 1)"
    unfolding k power_int_def using fl e1 by simp
  also have "\<dots> = rat_of_nat (2 ^ (floorlog 2 n - 1))" by simp
  also have "\<dots> \<le> rat_of_nat n" using b(1) by (simp only: of_nat_le_iff)
  finally have lo: "2 powi (floor_log2 r) \<le> r" using nr by simp
  have "rat_of_nat n + 1 = rat_of_nat (Suc n)" by simp
  also have "\<dots> \<le> rat_of_nat (2 ^ floorlog 2 n)" using b(2) by (simp only: of_nat_le_iff Suc_le_eq)
  also have "\<dots> = 2 ^ floorlog 2 n" by simp
  also have "\<dots> = 2 powi (floor_log2 r + 1)" unfolding k power_int_def using e2 by simp
  finally show ?thesis using lo nr by simp
qed

lemma pow2_less_cancel:
  assumes "(2::rat) powi a < 2 powi b"
  shows "a < b"
proof (rule ccontr)
  assume "\<not> a < b"
  then have "b \<le> a" by simp
  then have "(2::rat) powi b \<le> 2 powi a" by (rule power_int_increasing) simp
  then show False using assms by simp
qed

lemma floor_log2_bounds:
  "0 < r \<Longrightarrow> 2 powi (floor_log2 r) \<le> r \<and> r < 2 powi (floor_log2 r + 1)"
  using floor_log2_bounds_ge1 [of r] floor_log2_bounds_lt1 [of r] by blast

lemma floor_log2_unique:
  assumes "2 powi k \<le> r" "r < 2 powi (k + 1)"
  shows "floor_log2 r = k"
proof -
  have "(0::rat) < 2 powi k" by simp
  then have r: "0 < r" using assms(1) by (rule less_le_trans)
  from floor_log2_bounds[OF r] have b: "2 powi floor_log2 r \<le> r" "r < 2 powi (floor_log2 r + 1)" by auto
  have "(2::rat) powi k < 2 powi (floor_log2 r + 1)" using assms(1) b(2) by (rule le_less_trans)
  then have 1: "k < floor_log2 r + 1" by (rule pow2_less_cancel)
  have "(2::rat) powi floor_log2 r < 2 powi (k + 1)" using b(1) assms(2) by (rule le_less_trans)
  then have 2: "floor_log2 r < k + 1" by (rule pow2_less_cancel)
  show ?thesis using 1 2 by simp
qed

lemma floor_log2_less:
  assumes "0 < r" "r < 2 powi k"
  shows "floor_log2 r < k"
proof -
  from floor_log2_bounds[OF assms(1)] have "2 powi floor_log2 r \<le> r" by simp
  then have "(2::rat) powi floor_log2 r < 2 powi k" using assms(2) by (rule le_less_trans)
  then show ?thesis by (rule pow2_less_cancel)
qed

lemma round_half_even_of_int: "round_half_even (of_int m) = m"
  by (simp add: round_half_even_def)

lemma round_half_even_near:
  assumes "\<bar>x - of_int m\<bar> < 1 / 2"
  shows "round_half_even x = m"
proof -
  have "\<lfloor>x\<rfloor> = m \<or> \<lfloor>x\<rfloor> = m - 1" using assms by linarith
  then show ?thesis
  proof
    assume f: "\<lfloor>x\<rfloor> = m"
    have "x - of_int m < 1 / 2" using assms by (simp only: abs_less_iff)
    then show ?thesis using f by (simp add: round_half_even_def)
  next
    assume f: "\<lfloor>x\<rfloor> = m - 1"
    have "- (1 / 2) < x - of_int m" using assms by (simp only: abs_less_iff) linarith
    then have "1 / 2 < x - of_int (m - 1)" by simp
    then show ?thesis using f by (simp add: round_half_even_def)
  qed
qed

lemma round_half_even_le:
  assumes "x \<le> of_int K"
  shows "round_half_even x \<le> K"
proof (cases "x = of_int K")
  case True
  then show ?thesis by (simp add: round_half_even_of_int)
next
  case False
  then have "x < of_int K" using assms by simp
  then have "\<lfloor>x\<rfloor> < K" by (simp add: floor_less_iff)
  then have "\<lfloor>x\<rfloor> + 1 \<le> K" by simp
  then show ?thesis by (simp add: round_half_even_def Let_def)
qed

lemma round_half_even_ge:
  assumes "of_int K \<le> x"
  shows "K \<le> round_half_even x"
proof -
  have "K \<le> \<lfloor>x\<rfloor>" using assms by (simp add: le_floor_iff)
  then show ?thesis by (simp add: round_half_even_def Let_def)
qed

lemma round_binary64_near:
  assumes k: "2 powi k \<le> r" "r < 2 powi (k + 1)" and kn: "- 1022 \<le> k"
    and m: "\<bar>r / 2 powi (k - 52) - of_int m\<bar> < 1 / 2"
    and y: "of_int m * 2 powi (k - 52) < (2::rat) ^ 1024"
  shows "round_binary64 r = Fin (of_int m * 2 powi (k - 52))"
proof -
  have "(0::rat) < 2 powi k" by simp
  then have r: "0 < r" using k(1) by (rule less_le_trans)
  have fl: "floor_log2 r = k" using k by (rule floor_log2_unique)
  have e: "max (floor_log2 r - 52) (- 1074) = k - 52" using kn by (simp add: fl)
  have rh: "round_half_even (r / 2 powi (k - 52)) = m" using m by (rule round_half_even_near)
  have ny: "\<not> (2::rat) ^ 1024 \<le> of_int m * 2 powi (k - 52)" using y by (simp only: not_le)
  have ar: "\<bar>r\<bar> = r" "sgn r = 1" "(r = 0) = False"
    "(2 ^ 1024 \<le> rat_of_int m * 2 powi (k - 52)) = False" using r ny by simp_all
  show ?thesis unfolding round_binary64_def Let_def ar e rh
    by (simp only: if_False mult_1)
qed

lemma round_binary64_exact:
  assumes k: "2 powi k \<le> r" "r < 2 powi (k + 1)" and kn: "- 1022 \<le> k" "k < 1024"
    and m: "r * 2 powi (52 - k) = of_int m"
  shows "round_binary64 r = Fin r"
proof -
  have "(2::rat) powi (k - 52) * 2 powi (52 - k) = 2 powi ((k - 52) + (52 - k))"
    by (rule power_int_add [symmetric]) simp
  then have p: "(2::rat) powi (k - 52) * 2 powi (52 - k) = 1" by simp
  have nz: "(2::rat) powi (k - 52) \<noteq> 0" by simp
  have q: "r / 2 powi (k - 52) = r * 2 powi (52 - k)"
    using p nz by (simp add: divide_eq_eq mult.assoc mult.commute)
  have "of_int m * 2 powi (k - 52) = r * (2 powi (52 - k) * 2 powi (k - 52))"
    by (simp only: m [symmetric] mult.assoc)
  also have "\<dots> = r" using p by (simp only: mult.commute [of "2 powi (52 - k)"] mult_1_right)
  finally have rm: "of_int m * 2 powi (k - 52) = r" .
  have "k + 1 \<le> 1024" using kn by simp
  then have "(2::rat) powi (k + 1) \<le> 2 powi 1024" by (rule power_int_increasing) simp
  then have "r < 2 powi 1024" using k(2) by (rule less_le_trans [rotated])
  then have r1024: "r < 2 ^ 1024" by (simp only: power_int_numeral)
  have near: "\<bar>r / 2 powi (k - 52) - of_int m\<bar> < 1 / 2" unfolding q m by simp
  have "round_binary64 r = Fin (of_int m * 2 powi (k - 52))"
    using k kn(1) near by (rule round_binary64_near) (simp only: rm r1024)
  then show ?thesis by (simp only: rm)
qed

lemma float_literal_tenth:
  "float_literal (1 / 10) = Fin (3602879701896397 / 36028797018963968)"
proof -
  have "round_binary64 (1 / 10) = Fin (of_int 7205759403792794 * 2 powi (- 4 - 52))"
    by (rule round_binary64_near) simp_all
  then show ?thesis by (simp add: float_literal_def)
qed

lemma float_literal_twentieth:
  "float_literal (1 / 20) = Fin (3602879701896397 / 72057594037927936)"
proof -
  have "round_binary64 (1 / 20) = Fin (of_int 7205759403792794 * 2 powi (- 5 - 52))"
    by (rule round_binary64_near) simp_all
  then show ?thesis by (simp add: float_literal_def)
qed

lemma float_literal_1: "float_literal 1 = Fin 1"
  unfolding float_literal_def
  by (rule round_binary64_exact [where k = 0 and m = "2 ^ 52"]) simp_all

lemma float_literal_2: "float_literal 2 = Fin 2"
  unfolding float_literal_def
  by (rule round_binary64_exact [where k = 1 and m = "2 ^ 52"]) simp_all

lemma float_literal_10: "float_literal 10 = Fin 10"
  unfolding float_literal_def
  by (rule round_binary64_exact [where k = 3 and m = "10 * 2 ^ 49"]) simp_all

lemma round_binary64_times_256:
  assumes rep: "round_binary64 r = Fin r" and lo: "1 / 16 \<le> r" and hi: "r \<le> 16"
  shows "round_binary64 (r * 256) = Fin (r * 256)"
proof -
  have r: "0 < r" using lo by simp
  define k where "k = floor_log2 r"
  from floor_log2_bounds [OF r] have b: "2 powi k \<le> r" "r < 2 powi (k + 1)"
    by (simp_all add: k_def)
  have "(2::rat) powi (- 4) < 2 powi (k + 1)" using lo b(2) by simp
  then have k1: "- 4 < k + 1" by (rule pow2_less_cancel)
  have "(2::rat) powi k < 2 powi 5" using hi b(1) by simp
  then have k2: "k < 5" by (rule pow2_less_cancel)
  have e: "max (floor_log2 r - 52) (- 1074) = k - 52" using k1 by (simp add: k_def)
  define m where "m = round_half_even (r / 2 powi (k - 52))"
  have ar: "\<bar>r\<bar> = r" "sgn r = 1" "(r = 0) = False" using r by simp_all
  have "(if (2::rat) ^ 1024 \<le> of_int m * 2 powi (k - 52) then PosInf
         else Fin (of_int m * 2 powi (k - 52))) = Fin r"
    using rep unfolding round_binary64_def Let_def ar e m_def
    by (simp only: if_False if_True mult_1 r)
  then have rm: "of_int m * 2 powi (k - 52) = r"
    by (simp split: if_splits)
  have p8: "(2::rat) powi (k + 8) = 2 powi k * 256" "(2::rat) powi (k + 8 + 1) = 2 powi (k + 1) * 256"
    by (simp_all add: power_int_add)
  have s1: "2 powi (k + 8) \<le> r * 256" unfolding p8(1) using b(1) by simp
  have s2: "r * 256 < 2 powi (k + 8 + 1)" unfolding p8(2) using b(2) by simp
  have "(2::rat) powi (k - 52) * 2 powi (52 - (k + 8)) = 2 powi ((k - 52) + (52 - (k + 8)))"
    by (rule power_int_add [symmetric]) simp
  also have "\<dots> = 1 / 256" by simp
  finally have q: "(2::rat) powi (k - 52) * 2 powi (52 - (k + 8)) = 1 / 256" .
  have "r * 256 * 2 powi (52 - (k + 8)) = of_int m * (2 powi (k - 52) * 2 powi (52 - (k + 8))) * 256"
    by (simp only: rm [symmetric] mult.assoc mult.commute mult.left_commute)
  also have "\<dots> = of_int m * (1 / 256) * 256" by (simp only: q)
  also have "\<dots> = of_int m" by simp
  finally have s3: "r * 256 * 2 powi (52 - (k + 8)) = of_int m" .
  show ?thesis using s1 s2 _ _ s3
    by (rule round_binary64_exact) (use k1 k2 in simp_all)
qed

section \<open>Zoom\<close>

lemma zoom_in_range:
  assumes "is_binary64 r" "fle (float_literal (1 / 10)) (Fin r)" "fle (Fin r) (float_literal 10)"
  shows "zoom (PFloat (Fin r)) = Inr (PInt \<lfloor>r * 256\<rfloor>)"
proof -
  have lo: "3602879701896397 / 36028797018963968 \<le> r"
    using assms(2) by (simp add: float_literal_tenth)
  have hi: "r \<le> 10" using assms(3) by (simp add: float_literal_10)
  have "round_binary64 (r * 256) = Fin (r * 256)"
    using assms(1) lo hi by (intro round_binary64_times_256) (simp_all add: is_binary64_def)
  then have "int_of_scaled (Fin r) 256 = Inr (PInt \<lfloor>r * 256\<rfloor>)"
    using lo by (simp add: int_of_scaled_def)
  then show ?thesis using assms(2,3) by (simp add: zoom_def cv_float_range_def)
qed

lemma zoom_out_of_range:
  assumes "\<not> (fle (float_literal (1 / 10)) v \<and> fle v (float_literal 10))"
  shows "zoom (PFloat v) = Inl RangeError"
  using assms by (auto simp add: zoom_def cv_float_range_def)

lemma is_binary64_1: "is_binary64 1"
  using float_literal_1 by (simp add: is_binary64_def float_literal_def)

lemma is_binary64_2: "is_binary64 2"
  using float_literal_2 by (simp add: is_binary64_def float_literal_def)

lemma is_binary64_10: "is_binary64 10"
  using float_literal_10 by (simp add: is_binary64_def float_literal_def)

text \<open>
  C8. For every float \<open>r\<close> in the closed range from \<open>0.1\<close> to \<open>10.0\<close>,
  \<open>zoom\<close> returns \<open>int(r * 256)\<close>: the product is exact in binary64 and not negative,
  so that the truncation is the floor of \<open>r * 256\<close>. A float outside the range (an
  infinity and NaN included) fails with the range error. In particular \<open>zoom(1.0) = 256\<close>,
  \<open>zoom(2.0) = 512\<close>, \<open>zoom(10.0) = 2560\<close>, and \<open>zoom(0.05)\<close> fails.
\<close>

theorem zoom_scales_by_256:
  "(is_binary64 r \<and> fle (float_literal (1 / 10)) (Fin r) \<and> fle (Fin r) (float_literal 10)
      \<longrightarrow> zoom (PFloat (Fin r)) = Inr (PInt \<lfloor>r * 256\<rfloor>))
   \<and> (\<not> (fle (float_literal (1 / 10)) v \<and> fle v (float_literal 10))
      \<longrightarrow> zoom (PFloat v) = Inl RangeError)
   \<and> zoom (PFloat (float_literal 1)) = Inr (PInt 256)
   \<and> zoom (PFloat (float_literal 2)) = Inr (PInt 512)
   \<and> zoom (PFloat (float_literal 10)) = Inr (PInt 2560)
   \<and> zoom (PFloat (float_literal (1 / 20))) = Inl RangeError"
proof (intro conjI impI)
  show "zoom (PFloat (float_literal 1)) = Inr (PInt 256)"
    using zoom_in_range [OF is_binary64_1]
    by (simp add: float_literal_1 float_literal_tenth float_literal_10)
  show "zoom (PFloat (float_literal 2)) = Inr (PInt 512)"
    using zoom_in_range [OF is_binary64_2]
    by (simp add: float_literal_2 float_literal_tenth float_literal_10)
  show "zoom (PFloat (float_literal 10)) = Inr (PInt 2560)"
    using zoom_in_range [OF is_binary64_10]
    by (simp add: float_literal_tenth float_literal_10)
  show "zoom (PFloat (float_literal (1 / 20))) = Inl RangeError"
    by (rule zoom_out_of_range) (simp add: float_literal_twentieth float_literal_tenth)
qed (simp_all add: zoom_in_range zoom_out_of_range)

theorem zoom_scales_by_256_witness:
  "is_binary64 (3 / 2) \<and> fle (float_literal (1 / 10)) (Fin (3 / 2))
   \<and> fle (Fin (3 / 2)) (float_literal 10)
   \<and> zoom (PFloat (Fin (3 / 2))) = Inr (PInt 384)
   \<and> \<not> (fle (float_literal (1 / 10)) (Fin 11) \<and> fle (Fin 11) (float_literal 10))
   \<and> zoom (PFloat (Fin 11)) = Inl RangeError"
proof -
  have b: "is_binary64 (3 / 2)"
    unfolding is_binary64_def
    by (rule round_binary64_exact [where k = 0 and m = "3 * 2 ^ 51"]) simp_all
  have r: "fle (float_literal (1 / 10)) (Fin (3 / 2))" "fle (Fin (3 / 2)) (float_literal 10)"
    "\<not> (fle (float_literal (1 / 10)) (Fin 11) \<and> fle (Fin 11) (float_literal 10))"
    by (simp_all add: float_literal_tenth float_literal_10)
  show ?thesis
    using zoom_scales_by_256 [of "3 / 2" "Fin 11"] b r by simp
qed

section \<open>Sizes\<close>

lemma round_binary64_50: "round_binary64 50 = Fin 50"
  by (rule round_binary64_exact [where k = 5 and m = "50 * 2 ^ 47"]) simp_all

lemma round_binary64_half: "round_binary64 (1 / 2) = Fin (1 / 2)"
  by (rule round_binary64_exact [where k = "- 1" and m = "2 ^ 52"]) simp_all

lemma round_binary64_25: "round_binary64 25 = Fin 25"
  by (rule round_binary64_exact [where k = 4 and m = "25 * 2 ^ 48"]) simp_all

lemma round_binary64_quarter: "round_binary64 (1 / 4) = Fin (1 / 4)"
  by (rule round_binary64_exact [where k = "- 2" and m = "2 ^ 52"]) simp_all

lemmas text_simps =
  endswith_def startswith_def drop_last_def py_lower_def py_upper_def is_ascii_def
  ascii_lower_def ascii_lower_char_def ascii_upper_def ascii_upper_char_def
  py_strip_def py_rstrip_def is_space_def replace_spaces_def

lemmas number_simps =
  py_float_of_str_def py_int_of_str_def parse_decimal_def parse_signed_def parse_nat_def
  is_dec_def digit_val_def str_int_def str_nat.simps

lemma cv_percentage_50: "cv_percentage (PStr ''50%'') = Inr (Fin (1 / 2))"
  by (simp add: cv_percentage_def cv_float_range_def text_simps number_simps
      round_binary64_50 round_binary64_half)

lemma lv_pct_50: "lv_pct (PStr ''50%'') = Inr (PStr ''lv_pct(50)'')"
  by (simp add: lv_pct_def cv_percentage_50 round_binary64_50 str_int_def str_nat.simps)

lemma cv_percentage_25: "cv_percentage (PStr ''25%'') = Inr (Fin (1 / 4))"
  by (simp add: cv_percentage_def cv_float_range_def text_simps number_simps
      round_binary64_25 round_binary64_quarter)

lemma lv_pct_25: "lv_pct (PStr ''25%'') = Inr (PStr ''lv_pct(25)'')"
  by (simp add: lv_pct_def cv_percentage_25 round_binary64_25 str_int_def str_nat.simps)

lemma upper_char_T: "ascii_upper_char c = CHR ''T'' \<Longrightarrow> c = CHR ''t'' \<or> c = CHR ''T''"
  by (simp add: ascii_upper_char_def split: if_splits)

lemma endswith_last: "endswith s suffix \<Longrightarrow> suffix \<noteq> [] \<Longrightarrow> last s = last suffix"
  unfolding endswith_def
  by (metis diff_less last_drop length_greater_0_conv less_le_trans)

lemma size_content_last:
  assumes "ascii_upper s = ''SIZE_CONTENT''"
  shows "s \<noteq> [] \<and> (last s = CHR ''t'' \<or> last s = CHR ''T'')"
proof -
  have ne: "s \<noteq> []" using assms by (auto simp: ascii_upper_def)
  have "last (map ascii_upper_char s) = CHR ''T''" using assms by (simp add: ascii_upper_def)
  then have "ascii_upper_char (last s) = CHR ''T''" using ne by (simp add: last_map)
  then show ?thesis using ne upper_char_T by blast
qed

lemma size_content_given:
  assumes "py_upper to_upper s = ''SIZE_CONTENT''" "\<not> endswith (py_lower to_lower s) ''px''"
    "\<not> endswith s ''%''"
  shows "size_validator to_upper to_lower (PStr s) = Inr (PStr ''LV_SIZE_CONTENT'')"
  using assms by (simp add: size_validator_def)

lemma size_content_any_case:
  assumes "is_ascii s" "py_upper to_upper s = ''SIZE_CONTENT''"
  shows "size_validator to_upper to_lower (PStr s) = Inr (PStr ''LV_SIZE_CONTENT'')"
proof -
  have u: "ascii_upper s = ''SIZE_CONTENT''" using assms by (simp add: py_upper_def)
  from size_content_last [OF u]
  have ne: "s \<noteq> []" and l: "last s = CHR ''t'' \<or> last s = CHR ''T''" by simp_all
  have lo: "py_lower to_lower s = ascii_lower s" using assms(1) by (simp add: py_lower_def)
  have "last (ascii_lower s) = ascii_lower_char (last s)"
    using ne by (simp add: ascii_lower_def last_map)
  also have "\<dots> = CHR ''t''" using l by (auto simp: ascii_lower_char_def)
  finally have "last (ascii_lower s) \<noteq> last ''px''" by simp
  then have px: "\<not> endswith (py_lower to_lower s) ''px''"
    unfolding lo using endswith_last by fastforce
  have "last s \<noteq> last ''%''" using l by auto
  then have pc: "\<not> endswith s ''%''" using endswith_last by fastforce
  show ?thesis using assms(2) px pc by (rule size_content_given)
qed

lemma size_other_text:
  assumes "py_upper to_upper t \<noteq> ''SIZE_CONTENT''" "\<not> endswith (py_lower to_lower t) ''px''"
    "\<not> endswith t ''%''"
  shows "size_validator to_upper to_lower (PStr t) = Inl size_error"
  using assms by (simp add: size_validator_def)

lemma size_is_size_validator: "size to_upper to_lower (PStr s) = size_validator to_upper to_lower (PStr s)"
  by (simp add: size_def LValidator_call_def)

text \<open>
  C1. The size validator returns the same fixed token for \<open>"SIZE_CONTENT"\<close>, for
  \<open>"size_content"\<close> and for every text of ASCII characters that \<open>str.upper()\<close> maps to
  the name, and also for any other text that it maps to the name and that, lowered, does
  not end in \<open>px\<close> (a text beyond ASCII, where the case mappings are the parameters);
  \<open>size("50%")\<close> is the percent-length expression \<open>lv_pct(50)\<close> and \<open>size("25%")\<close> is
  \<open>lv_pct(25)\<close>; an integer, such as 10, is returned as it is, and so is the integer of
  \<open>"10px"\<close>; and a text such as \<open>"abc"\<close>, which \<open>str.upper()\<close> does not map to the name
  and which has no \<open>px\<close> suffix and no percent sign, fails with the validation error of
  the function itself, which names the accepted shapes. A text with the suffix \<open>px\<close>
  that \<open>cv.int_\<close> rejects, and a text with a percent sign that \<open>cv.percentage\<close> rejects,
  fail with the error of that helper.
\<close>

theorem size_shapes:
  "size to_upper to_lower (PStr ''SIZE_CONTENT'') = Inr (PStr ''LV_SIZE_CONTENT'')
   \<and> size to_upper to_lower (PStr ''size_content'') = Inr (PStr ''LV_SIZE_CONTENT'')
   \<and> (is_ascii s \<and> py_upper to_upper s = ''SIZE_CONTENT'' \<longrightarrow>
        size to_upper to_lower (PStr s) = Inr (PStr ''LV_SIZE_CONTENT''))
   \<and> (py_upper to_upper n = ''SIZE_CONTENT'' \<and> \<not> endswith (py_lower to_lower n) ''px''
        \<and> \<not> endswith n ''%'' \<longrightarrow>
        size to_upper to_lower (PStr n) = Inr (PStr ''LV_SIZE_CONTENT''))
   \<and> size to_upper to_lower (PStr ''50%'') = Inr (PStr ''lv_pct(50)'')
   \<and> size to_upper to_lower (PStr ''25%'') = Inr (PStr ''lv_pct(25)'')
   \<and> size to_upper to_lower (PInt 10) = Inr (PInt 10)
   \<and> size to_upper to_lower (PInt i) = Inr (PInt i)
   \<and> size to_upper to_lower (PStr ''10px'') = Inr (PInt 10)
   \<and> size to_upper to_lower (PStr ''abc'') = Inl size_error
   \<and> (py_upper to_upper t \<noteq> ''SIZE_CONTENT'' \<and> \<not> endswith (py_lower to_lower t) ''px''
        \<and> \<not> endswith t ''%'' \<longrightarrow>
        size to_upper to_lower (PStr t) = Inl size_error)
   \<and> size_error = Invalid ''must be 'size_content', a pixel position or a percentage''
   \<and> (endswith (py_lower to_lower u) ''px'' \<and> cv_int (PStr (drop_last 2 u)) = Inl e \<longrightarrow>
        size to_upper to_lower (PStr u) = Inl e)
   \<and> (\<not> endswith (py_lower to_lower w) ''px'' \<and> endswith w ''%''
        \<and> cv_percentage (PStr w) = Inl e' \<longrightarrow>
        size to_upper to_lower (PStr w) = Inl e')"
proof (intro conjI impI)
  show "size to_upper to_lower (PStr ''SIZE_CONTENT'') = Inr (PStr ''LV_SIZE_CONTENT'')"
    unfolding size_is_size_validator
    by (rule size_content_any_case) (simp_all add: text_simps)
  show "size to_upper to_lower (PStr ''size_content'') = Inr (PStr ''LV_SIZE_CONTENT'')"
    unfolding size_is_size_validator
    by (rule size_content_any_case) (simp_all add: text_simps)
  show "size to_upper to_lower (PStr ''50%'') = Inr (PStr ''lv_pct(50)'')"
    by (simp add: size_is_size_validator size_validator_def lv_pct_50 text_simps)
  show "size to_upper to_lower (PStr ''25%'') = Inr (PStr ''lv_pct(25)'')"
    by (simp add: size_is_size_validator size_validator_def lv_pct_25 text_simps)
  show "size to_upper to_lower (PStr ''10px'') = Inr (PInt 10)"
    by (simp add: size_is_size_validator size_validator_def text_simps number_simps)
  show "size to_upper to_lower (PStr ''abc'') = Inl size_error"
    by (simp add: size_is_size_validator size_validator_def text_simps)
  show "size_error = Invalid ''must be 'size_content', a pixel position or a percentage''"
    by (simp add: size_error_def)
  show "size to_upper to_lower (PInt i) = Inr (PInt i)"
    by (simp add: size_def LValidator_call_def size_validator_def)
  show "size to_upper to_lower (PInt 10) = Inr (PInt 10)"
    by (simp add: size_def LValidator_call_def size_validator_def)
next
  assume "is_ascii s \<and> py_upper to_upper s = ''SIZE_CONTENT''"
  then show "size to_upper to_lower (PStr s) = Inr (PStr ''LV_SIZE_CONTENT'')"
    by (simp add: size_is_size_validator size_content_any_case)
next
  assume "py_upper to_upper n = ''SIZE_CONTENT'' \<and> \<not> endswith (py_lower to_lower n) ''px''
        \<and> \<not> endswith n ''%''"
  then show "size to_upper to_lower (PStr n) = Inr (PStr ''LV_SIZE_CONTENT'')"
    by (simp add: size_is_size_validator size_content_given)
next
  assume "py_upper to_upper t \<noteq> ''SIZE_CONTENT'' \<and> \<not> endswith (py_lower to_lower t) ''px''
        \<and> \<not> endswith t ''%''"
  then show "size to_upper to_lower (PStr t) = Inl size_error"
    by (simp add: size_is_size_validator size_other_text)
next
  assume "endswith (py_lower to_lower u) ''px'' \<and> cv_int (PStr (drop_last 2 u)) = Inl e"
  then show "size to_upper to_lower (PStr u) = Inl e"
    by (simp add: size_is_size_validator size_validator_def)
next
  assume "\<not> endswith (py_lower to_lower w) ''px'' \<and> endswith w ''%''
        \<and> cv_percentage (PStr w) = Inl e'"
  then show "size to_upper to_lower (PStr w) = Inl e'"
    by (simp add: size_is_size_validator size_validator_def lv_pct_def)
qed

text \<open>
  The witness takes, beyond ASCII, the text \<open>size_content\<close> written with the long s
  (U+017F, the bytes C5 BF), which \<open>str.upper()\<close> maps to \<open>SIZE_CONTENT\<close> and
  \<open>str.lower()\<close> leaves as it is.
\<close>

theorem size_shapes_witness:
  "is_ascii ''Size_Content''
   \<and> py_upper (\<lambda>s. if s = [CHR 0xC5, CHR 0xBF] @ ''ize_content'' then ''SIZE_CONTENT'' else s)
        ''Size_Content'' = ''SIZE_CONTENT''
   \<and> size (\<lambda>s. if s = [CHR 0xC5, CHR 0xBF] @ ''ize_content'' then ''SIZE_CONTENT'' else s)
        (\<lambda>s. s) (PStr ''Size_Content'') = Inr (PStr ''LV_SIZE_CONTENT'')
   \<and> py_upper (\<lambda>s. if s = [CHR 0xC5, CHR 0xBF] @ ''ize_content'' then ''SIZE_CONTENT'' else s)
        ([CHR 0xC5, CHR 0xBF] @ ''ize_content'') = ''SIZE_CONTENT''
   \<and> \<not> endswith (py_lower (\<lambda>s. s) ([CHR 0xC5, CHR 0xBF] @ ''ize_content'')) ''px''
   \<and> \<not> endswith ([CHR 0xC5, CHR 0xBF] @ ''ize_content'') ''%''
   \<and> size (\<lambda>s. if s = [CHR 0xC5, CHR 0xBF] @ ''ize_content'' then ''SIZE_CONTENT'' else s)
        (\<lambda>s. s) (PStr ([CHR 0xC5, CHR 0xBF] @ ''ize_content'')) = Inr (PStr ''LV_SIZE_CONTENT'')
   \<and> py_upper (\<lambda>s. if s = [CHR 0xC5, CHR 0xBF] @ ''ize_content'' then ''SIZE_CONTENT'' else s)
        ''10 em'' \<noteq> ''SIZE_CONTENT''
   \<and> \<not> endswith (py_lower (\<lambda>s. s) ''10 em'') ''px'' \<and> \<not> endswith ''10 em'' ''%''
   \<and> size (\<lambda>s. if s = [CHR 0xC5, CHR 0xBF] @ ''ize_content'' then ''SIZE_CONTENT'' else s)
        (\<lambda>s. s) (PStr ''10 em'') = Inl size_error
   \<and> endswith (py_lower (\<lambda>s. s) ''abcpx'') ''px''
   \<and> cv_int (PStr (drop_last 2 ''abcpx'')) = Inl ShapeMismatch
   \<and> size (\<lambda>s. if s = [CHR 0xC5, CHR 0xBF] @ ''ize_content'' then ''SIZE_CONTENT'' else s)
        (\<lambda>s. s) (PStr ''abcpx'') = Inl ShapeMismatch
   \<and> \<not> endswith (py_lower (\<lambda>s. s) ''abc%'') ''px'' \<and> endswith ''abc%'' ''%''
   \<and> cv_percentage (PStr ''abc%'') = Inl ShapeMismatch
   \<and> size (\<lambda>s. if s = [CHR 0xC5, CHR 0xBF] @ ''ize_content'' then ''SIZE_CONTENT'' else s)
        (\<lambda>s. s) (PStr ''abc%'') = Inl ShapeMismatch"
proof -
  define U where "U = (\<lambda>s. if s = [CHR 0xC5, CHR 0xBF] @ ''ize_content'' then ''SIZE_CONTENT'' else s)"
  have a: "cv_int (PStr (drop_last 2 ''abcpx'')) = Inl ShapeMismatch"
    by (simp add: text_simps number_simps)
  have b: "cv_percentage (PStr ''abc%'') = Inl ShapeMismatch"
    by (simp add: cv_percentage_def text_simps number_simps)
  have c: "is_ascii ''Size_Content''" "py_upper U ''Size_Content'' = ''SIZE_CONTENT''"
    "py_upper U ([CHR 0xC5, CHR 0xBF] @ ''ize_content'') = ''SIZE_CONTENT''"
    "\<not> endswith (py_lower (\<lambda>s. s) ([CHR 0xC5, CHR 0xBF] @ ''ize_content'')) ''px''"
    "\<not> endswith ([CHR 0xC5, CHR 0xBF] @ ''ize_content'') ''%''"
    "py_upper U ''10 em'' \<noteq> ''SIZE_CONTENT''"
    "\<not> endswith (py_lower (\<lambda>s. s) ''10 em'') ''px''" "\<not> endswith ''10 em'' ''%''"
    "endswith (py_lower (\<lambda>s. s) ''abcpx'') ''px''"
    "\<not> endswith (py_lower (\<lambda>s. s) ''abc%'') ''px''" "endswith ''abc%'' ''%''"
    by (simp_all add: text_simps U_def)
  have "?thesis = (is_ascii ''Size_Content''
   \<and> py_upper U ''Size_Content'' = ''SIZE_CONTENT''
   \<and> size U (\<lambda>s. s) (PStr ''Size_Content'') = Inr (PStr ''LV_SIZE_CONTENT'')
   \<and> py_upper U ([CHR 0xC5, CHR 0xBF] @ ''ize_content'') = ''SIZE_CONTENT''
   \<and> \<not> endswith (py_lower (\<lambda>s. s) ([CHR 0xC5, CHR 0xBF] @ ''ize_content'')) ''px''
   \<and> \<not> endswith ([CHR 0xC5, CHR 0xBF] @ ''ize_content'') ''%''
   \<and> size U (\<lambda>s. s) (PStr ([CHR 0xC5, CHR 0xBF] @ ''ize_content'')) = Inr (PStr ''LV_SIZE_CONTENT'')
   \<and> py_upper U ''10 em'' \<noteq> ''SIZE_CONTENT''
   \<and> \<not> endswith (py_lower (\<lambda>s. s) ''10 em'') ''px'' \<and> \<not> endswith ''10 em'' ''%''
   \<and> size U (\<lambda>s. s) (PStr ''10 em'') = Inl size_error
   \<and> endswith (py_lower (\<lambda>s. s) ''abcpx'') ''px''
   \<and> cv_int (PStr (drop_last 2 ''abcpx'')) = Inl ShapeMismatch
   \<and> size U (\<lambda>s. s) (PStr ''abcpx'') = Inl ShapeMismatch
   \<and> \<not> endswith (py_lower (\<lambda>s. s) ''abc%'') ''px'' \<and> endswith ''abc%'' ''%''
   \<and> cv_percentage (PStr ''abc%'') = Inl ShapeMismatch
   \<and> size U (\<lambda>s. s) (PStr ''abc%'') = Inl ShapeMismatch)"
    unfolding U_def ..
  also have "\<dots>"
    using size_shapes [where to_upper = U and to_lower = "\<lambda>s. s" and s = "''Size_Content''"
        and n = "[CHR 0xC5, CHR 0xBF] @ ''ize_content''" and t = "''10 em''"
        and u = "''abcpx''" and e = ShapeMismatch and w = "''abc%''" and e' = ShapeMismatch]
      a b c
    by blast
  finally show ?thesis .
qed

section \<open>Opacity\<close>

lemma round_binary64_between:
  assumes "of_int L \<le> r" "r \<le> of_int K" "0 \<le> L" "K < 2 ^ 53"
  shows "\<exists>y. round_binary64 r = Fin y \<and> of_int L \<le> y \<and> y \<le> of_int K"
proof (cases "r = 0")
  case True
  then show ?thesis using assms by (simp add: round_binary64_def)
next
  case False
  have "(0::rat) \<le> of_int L" using assms(3) by simp
  then have "0 \<le> r" using assms(1) by (rule order_trans)
  then have r: "0 < r" using False by simp
  define e where "e = max (floor_log2 r - 52) (- 1074)"
  define n where "n = nat (- e)"
  define m where "m = round_half_even (r / 2 powi e)"
  have "rat_of_int K < of_int (2 ^ 53)" using assms(4) by (simp only: of_int_less_iff)
  then have K53: "rat_of_int K < 2 powi 53" by simp
  then have "r < 2 powi 53" using assms(2) by (rule le_less_trans [rotated])
  then have "floor_log2 r < 53" using r by (intro floor_log2_less)
  then have e0: "e \<le> 0" by (simp add: e_def)
  have "(2::rat) powi e = inverse 2 ^ n"
  proof (cases "e = 0")
    case True then show ?thesis by (simp add: n_def)
  next
    case False then show ?thesis using e0 unfolding power_int_def n_def by simp
  qed
  then have pe: "(2::rat) powi e = 1 / 2 ^ n" by (simp add: inverse_eq_divide power_one_over)
  have sc: "r / 2 powi e = r * 2 ^ n" by (simp add: pe)
  have "r * 2 ^ n \<le> of_int K * 2 ^ n" using assms(2) by simp
  also have "\<dots> = of_int (K * 2 ^ n)" by simp
  finally have "m \<le> K * 2 ^ n" unfolding m_def sc by (rule round_half_even_le)
  then have "rat_of_int m \<le> of_int (K * 2 ^ n)" by (simp only: of_int_le_iff)
  then have "rat_of_int m \<le> of_int K * 2 ^ n" by simp
  then have "of_int m / (2::rat) ^ n \<le> of_int K" by (simp add: pos_divide_le_eq)
  then have hi: "of_int m * 2 powi e \<le> (of_int K :: rat)" by (simp add: pe)
  have "of_int (L * 2 ^ n) = of_int L * (2::rat) ^ n" by simp
  also have "\<dots> \<le> r * 2 ^ n" using assms(1) by simp
  finally have "L * 2 ^ n \<le> m" unfolding m_def sc by (rule round_half_even_ge)
  then have "rat_of_int (L * 2 ^ n) \<le> of_int m" by (simp only: of_int_le_iff)
  then have "of_int L * 2 ^ n \<le> rat_of_int m" by simp
  then have "of_int L \<le> of_int m / (2::rat) ^ n" by (simp add: pos_le_divide_eq)
  then have lo: "(of_int L :: rat) \<le> of_int m * 2 powi e" by (simp add: pe)
  have "(2::rat) powi 53 \<le> 2 powi 1024" by (rule power_int_increasing) simp_all
  then have "of_int K < (2::rat) powi 1024" using K53 by (rule less_le_trans [rotated])
  then have "of_int m * 2 powi e < (2::rat) powi 1024" using hi by (rule le_less_trans [rotated])
  then have "of_int m * 2 powi e < (2::rat) ^ 1024" by (simp only: power_int_numeral)
  then have no: "((2::rat) ^ 1024 \<le> of_int m * 2 powi e) = False" by (simp only: not_le [symmetric])
  have ar: "\<bar>r\<bar> = r" "sgn r = 1" "(r = 0) = False" using r by simp_all
  have "round_binary64 r = Fin (of_int m * 2 powi e)"
    unfolding round_binary64_def Let_def ar e_def[symmetric] m_def[symmetric] no
    by (simp only: if_False mult_1)
  then show ?thesis using lo hi by simp
qed

lemma cv_float_range_bounds:
  assumes "cv_float_range (Fin a) (Fin b) v = Inr p"
  shows "\<exists>r. p = Fin r \<and> a \<le> r \<and> r \<le> b"
  using assms
  by (cases p) (auto simp: cv_float_range_def split: sum.splits if_splits)

lemma cv_percentage_bounds:
  assumes "cv_percentage v = Inr p"
  shows "\<exists>r. p = Fin r \<and> 0 \<le> r \<and> r \<le> 1"
  using assms cv_float_range_bounds [of 0 1 _ p]
  by (auto simp: cv_percentage_def split: pyval.splits if_splits option.splits)

lemma cv_percentage_sentinel: "cv_percentage SCHEMA_EXTRACT = Inl ShapeMismatch"
  by (simp add: cv_percentage_def cv_float_range_def)

lemma scaled_trunc:
  assumes "0 \<le> r" "r \<le> 1" "0 \<le> n" "n < 2 ^ 53"
  shows "\<exists>y. fmul (Fin r) (Fin (of_int n)) = Fin y \<and> 0 \<le> y \<and>
           int_of_scaled (Fin r) n = Inr (PInt \<lfloor>y\<rfloor>) \<and>
           0 \<le> \<lfloor>y\<rfloor> \<and> \<lfloor>y\<rfloor> \<le> n \<and>
           \<lfloor>r * of_int n\<rfloor> \<le> \<lfloor>y\<rfloor> \<and> \<lfloor>y\<rfloor> \<le> \<lceil>r * of_int n\<rceil>"
proof -
  define x where "x = r * of_int n"
  have x0: "0 \<le> x" using assms by (simp add: x_def)
  have xn: "x \<le> of_int n" using assms by (simp add: x_def mult_left_le_one_le)
  have c: "\<lceil>x\<rceil> \<le> n" using xn by (simp add: ceiling_le_iff)
  have c53: "\<lceil>x\<rceil> < 2 ^ 53" using c assms(4) by (rule le_less_trans)
  have fx: "0 \<le> \<lfloor>x\<rfloor>" using x0 by simp
  have "\<exists>y. round_binary64 x = Fin y \<and> of_int \<lfloor>x\<rfloor> \<le> y \<and> y \<le> of_int \<lceil>x\<rceil>"
    using of_int_floor_le le_of_int_ceiling fx c53 by (rule round_binary64_between)
  then obtain y where y: "round_binary64 x = Fin y" "of_int \<lfloor>x\<rfloor> \<le> y" "y \<le> of_int \<lceil>x\<rceil>"
    by blast
  have y0: "0 \<le> y" using x0 y(2) by (smt (verit) of_int_0_le_iff zero_le_floor order_trans)
  have f1: "\<lfloor>x\<rfloor> \<le> \<lfloor>y\<rfloor>" using y(2) by (simp add: le_floor_iff)
  have f2: "\<lfloor>y\<rfloor> \<le> \<lceil>x\<rceil>" using y(3) by (simp add: floor_le_iff)
  have "int_of_scaled (Fin r) n = Inr (PInt \<lfloor>y\<rfloor>)"
    using y(1) y0 by (simp add: int_of_scaled_def x_def)
  then show ?thesis using y y0 f1 f2 c by (auto simp: x_def)
qed

text \<open>
  C2. For every value that \<open>cv.percentage\<close> accepts, as the percentage \<open>p\<close>, \<open>p\<close> is a
  finite float between 0 and 1 and the opacity validator returns \<open>int(p * 255)\<close>: the float
  product \<open>y\<close> is finite and not negative, the result is its floor (a truncation, not a
  rounding), and it lies between 0 and 255. The float product is the exact product rounded
  to binary64, so that the result is the floor of the exact product or, when the rounding
  reaches the next integer, that integer.
\<close>

theorem opacity_truncates:
  assumes "cv_percentage v = Inr p"
  shows "\<exists>r y. p = Fin r \<and> 0 \<le> r \<and> r \<le> 1 \<and> fmul p (Fin 255) = Fin y \<and>
           opacity_validator to_upper v = Inr (PInt \<lfloor>y\<rfloor>) \<and>
           0 \<le> \<lfloor>y\<rfloor> \<and> \<lfloor>y\<rfloor> \<le> 255 \<and>
           \<lfloor>r * 255\<rfloor> \<le> \<lfloor>y\<rfloor> \<and> \<lfloor>y\<rfloor> \<le> \<lceil>r * 255\<rceil>"
proof -
  from cv_percentage_bounds [OF assms] obtain r where r: "p = Fin r" "0 \<le> r" "r \<le> 1"
    by blast
  from scaled_trunc [OF r(2,3), of 255] obtain y where
    y: "fmul (Fin r) (Fin 255) = Fin y" "int_of_scaled (Fin r) 255 = Inr (PInt \<lfloor>y\<rfloor>)"
       "0 \<le> \<lfloor>y\<rfloor>" "\<lfloor>y\<rfloor> \<le> 255" "\<lfloor>r * 255\<rfloor> \<le> \<lfloor>y\<rfloor>" "\<lfloor>y\<rfloor> \<le> \<lceil>r * 255\<rceil>"
    by auto
  have ns: "v \<noteq> SCHEMA_EXTRACT" using assms cv_percentage_sentinel by auto
  have "opacity_validator to_upper v = int_of_scaled (Fin r) 255"
    using ns assms r(1) by (simp add: opacity_validator_def cv_Any_def)
  then show ?thesis using r y by auto
qed

lemma round_binary64_255_half: "round_binary64 (255 / 2) = Fin (255 / 2)"
  by (rule round_binary64_exact [where k = 6 and m = "255 * 2 ^ 45"]) simp_all

theorem opacity_truncates_witness:
  "cv_percentage (PStr ''50%'') = Inr (Fin (1 / 2))
   \<and> opacity_validator id (PStr ''50%'') = Inr (PInt 127)"
proof -
  from opacity_truncates [OF cv_percentage_50, where to_upper = id] obtain y where
    y: "fmul (Fin (1 / 2)) (Fin 255) = Fin y"
       "opacity_validator id (PStr ''50%'') = Inr (PInt \<lfloor>y\<rfloor>)"
    by auto
  have yv: "y = 255 / 2" using y(1) by (simp add: round_binary64_255_half)
  have "\<lfloor>255 / 2 :: rat\<rfloor> = 127" by (rule floor_unique) simp_all
  then have "\<lfloor>y\<rfloor> = 127" by (simp only: yv)
  then show ?thesis using y(2) cv_percentage_50 by simp
qed

section \<open>Radius\<close>

lemma lv_pct_not_float: "lv_pct v = Inr x \<Longrightarrow> \<not> isinstance_float x"
  by (auto simp: lv_pct_def split: sum.splits)

lemma map_sum_PInt_Inr: "map_sum id PInt a = Inr y \<longleftrightarrow> (\<exists>n. a = Inr n \<and> y = PInt n)"
  by (cases a) auto

lemma size_validator_not_float:
  assumes "size_validator to_upper to_lower v = Inr x"
  shows "\<not> isinstance_float x"
proof (cases "v = SCHEMA_EXTRACT")
  case True
  then show ?thesis using assms by (auto simp: size_validator_def)
next
  case False
  show ?thesis
  proof (cases v)
    case (PStr s)
    then show ?thesis using assms lv_pct_not_float [of "PStr s" x]
      by (auto simp: size_validator_def map_sum_PInt_Inr split: if_splits sum.splits)
  next
    case (PInt i)
    then show ?thesis using assms by (auto simp: size_validator_def map_sum_PInt_Inr)
  next
    case (PBool b)
    then show ?thesis using assms by (auto simp: size_validator_def map_sum_PInt_Inr)
  qed (use assms False lv_pct_not_float [of v x] in \<open>auto simp: size_validator_def\<close>)
qed

lemma size_not_float:
  assumes "size to_upper to_lower v = Inr x"
  shows "\<not> isinstance_float x"
proof (cases v)
  case (Lambda src)
  then show ?thesis using assms by (auto simp: size_def LValidator_call_def cv_returning_lambda_def)
qed (use assms size_validator_not_float [where v = v and x = x] in \<open>auto simp: size_def LValidator_call_def\<close>)

lemma radius_takes_size:
  assumes "v \<noteq> SCHEMA_EXTRACT" "size to_upper to_lower v = Inr x"
  shows "radius_validator to_upper to_lower v = Inr x"
proof -
  have "\<not> isinstance_float x" using assms(2) by (rule size_not_float)
  then show ?thesis using assms
    by (cases x) (simp_all add: radius_validator_def cv_Any_def)
qed

lemma radius_scales_percentage:
  assumes "size to_upper to_lower v = Inl e" "is_Invalid e" "cv_percentage v = Inr p"
  shows "\<exists>r y. p = Fin r \<and> 0 \<le> r \<and> r \<le> 1 \<and> fmul p (Fin 255) = Fin y \<and>
           radius_validator to_upper to_lower v = Inr (PInt \<lfloor>y\<rfloor>) \<and> 0 \<le> \<lfloor>y\<rfloor> \<and> \<lfloor>y\<rfloor> \<le> 255"
proof -
  from cv_percentage_bounds [OF assms(3)] obtain r where r: "p = Fin r" "0 \<le> r" "r \<le> 1"
    by blast
  from scaled_trunc [OF r(2,3), of 255] obtain y where
    y: "fmul (Fin r) (Fin 255) = Fin y" "int_of_scaled (Fin r) 255 = Inr (PInt \<lfloor>y\<rfloor>)"
       "0 \<le> \<lfloor>y\<rfloor>" "\<lfloor>y\<rfloor> \<le> 255"
    by auto
  have ns: "v \<noteq> SCHEMA_EXTRACT" using assms(3) cv_percentage_sentinel by auto
  have "radius_validator to_upper to_lower v = int_of_scaled (Fin r) 255"
    using ns assms r(1) by (simp add: radius_validator_def cv_Any_def)
  then show ?thesis using r y by auto
qed

lemma size_50_percent: "size to_upper to_lower (PStr ''50%'') = Inr (PStr ''lv_pct(50)'')"
  by (simp add: size_def LValidator_call_def size_validator_def lv_pct_50 text_simps)

text \<open>
  C3, as stated, fails: \<open>"50%"\<close> is a percentage (\<open>cv.percentage\<close> reads 0.5, and
  \<open>int(0.5 * 255)\<close> is 127), but the radius validator returns \<open>lv_pct(50)\<close> for it,
  because \<open>size\<close> comes first in \<open>cv.Any\<close> and accepts it. (On this text of ASCII
  characters the parameters for the case mappings beyond ASCII play no part: they are
  taken as the identity.)
\<close>

theorem radius_percent_sign_counterexample:
  "cv_percentage (PStr ''50%'') = Inr (Fin (1 / 2))
   \<and> int_of_scaled (Fin (1 / 2)) 255 = Inr (PInt 127)
   \<and> radius_validator id id (PStr ''50%'') = Inr (PStr ''lv_pct(50)'')
   \<and> radius_validator id id (PStr ''50%'') \<noteq> Inr (PInt 127)"
proof -
  have "radius_validator id id (PStr ''50%'') = Inr (PStr ''lv_pct(50)'')"
    by (rule radius_takes_size [OF _ size_50_percent]) simp
  moreover have "\<lfloor>255 / 2 :: rat\<rfloor> = 127" by (rule floor_unique) simp_all
  then have "int_of_scaled (Fin (1 / 2)) 255 = Inr (PInt 127)"
    by (simp add: int_of_scaled_def round_binary64_255_half)
  ultimately show ?thesis by (simp add: cv_percentage_50)
qed

text \<open>
  C3, amended. The radius validator returns an integer unchanged. Every value that
  \<open>size\<close> accepts gets the result of \<open>size\<close>, so that a percentage written with a percent
  sign becomes a percent-length expression (\<open>"50%"\<close> gives \<open>lv_pct(50)\<close>); the name
  \<open>circle\<close> of the constant set gives its token. Only a value
  that \<open>size\<close> rejects and \<open>cv.percentage\<close> accepts, as \<open>p\<close>, is converted to
  \<open>int(p * 255)\<close>, an integer between 0 and 255, as the opacity validator does.
\<close>

theorem radius_delegates:
  "radius_validator to_upper to_lower (PInt i) = Inr (PInt i)
   \<and> (v \<noteq> SCHEMA_EXTRACT \<and> size to_upper to_lower v = Inr x \<longrightarrow> radius_validator to_upper to_lower v = Inr x)
   \<and> radius_validator to_upper to_lower (PStr ''50%'') = Inr (PStr ''lv_pct(50)'')
   \<and> radius_validator to_upper to_lower (PFloat (Fin (1 / 2))) = Inr (PStr ''lv_pct(50)'')
   \<and> radius_validator to_upper to_lower (PStr ''circle'') = Inr (PStr ''LV_RADIUS_CIRCLE'')
   \<and> (size to_upper to_lower w = Inl e \<and> is_Invalid e \<and> cv_percentage w = Inr p \<longrightarrow>
        (\<exists>r y. p = Fin r \<and> 0 \<le> r \<and> r \<le> 1 \<and> fmul p (Fin 255) = Fin y \<and>
           radius_validator to_upper to_lower w = Inr (PInt \<lfloor>y\<rfloor>) \<and> 0 \<le> \<lfloor>y\<rfloor> \<and> \<lfloor>y\<rfloor> \<le> 255))"
proof (intro conjI impI)
  have "size to_upper to_lower (PInt i) = Inr (PInt i)"
    by (simp add: size_def LValidator_call_def size_validator_def)
  then show "radius_validator to_upper to_lower (PInt i) = Inr (PInt i)"
    by (intro radius_takes_size) simp_all
  show "radius_validator to_upper to_lower (PStr ''50%'') = Inr (PStr ''lv_pct(50)'')"
    by (rule radius_takes_size [OF _ size_50_percent]) simp
  have "cv_percentage (PFloat (Fin (1 / 2))) = Inr (Fin (1 / 2))"
    by (simp add: cv_percentage_def cv_float_range_def)
  then have "lv_pct (PFloat (Fin (1 / 2))) = Inr (PStr ''lv_pct(50)'')"
    by (simp add: lv_pct_def round_binary64_50 str_int_def str_nat.simps)
  then have "size to_upper to_lower (PFloat (Fin (1 / 2))) = Inr (PStr ''lv_pct(50)'')"
    by (simp add: size_def LValidator_call_def size_validator_def)
  then show "radius_validator to_upper to_lower (PFloat (Fin (1 / 2))) = Inr (PStr ''lv_pct(50)'')"
    by (intro radius_takes_size) simp_all
  have c1: "size to_upper to_lower (PStr ''circle'') = Inl size_error"
    by (simp add: size_def LValidator_call_def size_validator_def text_simps)
  have c2: "cv_percentage (PStr ''circle'') = Inl ShapeMismatch"
    by (simp add: cv_percentage_def cv_float_range_def text_simps number_simps)
  have c3: "LvConstant_one_of to_upper radius_consts_prefix radius_consts_choices
              (PStr ''circle'') = Inr (PStr ''LV_RADIUS_CIRCLE'')"
    by (simp add: LvConstant_one_of_def LValidator_call_def LvConstant_validator_def
        cv_one_of_def radius_consts_prefix_def radius_consts_choices_def text_simps)
  show "radius_validator to_upper to_lower (PStr ''circle'') = Inr (PStr ''LV_RADIUS_CIRCLE'')"
    by (simp add: radius_validator_def cv_Any_def c1 c2 c3 size_error_def)
next
  assume "v \<noteq> SCHEMA_EXTRACT \<and> size to_upper to_lower v = Inr x"
  then show "radius_validator to_upper to_lower v = Inr x" by (simp add: radius_takes_size)
next
  assume "size to_upper to_lower w = Inl e \<and> is_Invalid e \<and> cv_percentage w = Inr p"
  then show "\<exists>r y. p = Fin r \<and> 0 \<le> r \<and> r \<le> 1 \<and> fmul p (Fin 255) = Fin y \<and>
           radius_validator to_upper to_lower w = Inr (PInt \<lfloor>y\<rfloor>) \<and> 0 \<le> \<lfloor>y\<rfloor> \<and> \<lfloor>y\<rfloor> \<le> 255"
    using radius_scales_percentage [where v = w and e = e and p = p] by blast
qed

lemma cv_percentage_text_half: "cv_percentage (PStr ''0.5'') = Inr (Fin (1 / 2))"
  by (simp add: cv_percentage_def cv_float_range_def text_simps number_simps round_binary64_half)

theorem radius_delegates_witness:
  "PStr ''10px'' \<noteq> SCHEMA_EXTRACT \<and> size id id (PStr ''10px'') = Inr (PInt 10)
   \<and> radius_validator id id (PStr ''10px'') = Inr (PInt 10)
   \<and> size id id (PStr ''0.5'') = Inl size_error \<and> is_Invalid size_error
   \<and> cv_percentage (PStr ''0.5'') = Inr (Fin (1 / 2))
   \<and> radius_validator id id (PStr ''0.5'') = Inr (PInt 127)"
proof -
  have s1: "size id id (PStr ''10px'') = Inr (PInt 10)"
    by (simp add: size_def LValidator_call_def size_validator_def text_simps number_simps)
  have s2: "size id id (PStr ''0.5'') = Inl size_error"
    by (simp add: size_def LValidator_call_def size_validator_def text_simps)
  have i: "is_Invalid size_error" by (simp add: size_error_def)
  from radius_delegates [where to_upper = id and to_lower = id and v = "PStr ''10px''"
      and x = "PInt 10" and w = "PStr ''0.5''" and e = size_error and p = "Fin (1 / 2)"]
    s1 s2 i cv_percentage_text_half
  obtain y where r1: "radius_validator id id (PStr ''10px'') = Inr (PInt 10)"
    and y: "fmul (Fin (1 / 2)) (Fin 255) = Fin y"
      "radius_validator id id (PStr ''0.5'') = Inr (PInt \<lfloor>y\<rfloor>)"
    by auto
  have yv: "y = 255 / 2" using y(1) by (simp add: round_binary64_255_half)
  have "\<lfloor>255 / 2 :: rat\<rfloor> = 127" by (rule floor_unique) simp_all
  then have "\<lfloor>y\<rfloor> = 127" by (simp only: yv)
  then show ?thesis using s1 s2 i r1 y(2) cv_percentage_text_half by simp
qed

section \<open>Describe mode\<close>

text \<open>
  C4, as stated, fails: \<open>zoom\<close> and the milliseconds validator are validators without a
  test for the documentation sentinel; given the sentinel they raise a validation error.
\<close>

theorem zoom_has_no_describe_mode_counterexample:
  "zoom SCHEMA_EXTRACT = Inl ShapeMismatch
   \<and> lvms_validator SCHEMA_EXTRACT = Inl ShapeMismatch"
proof
  have "cv_float_range (float_literal (1 / 10)) (float_literal 10) SCHEMA_EXTRACT =
          Inl ShapeMismatch"
    by (simp add: cv_float_range_def)
  then show "zoom SCHEMA_EXTRACT = Inl ShapeMismatch"
    by (simp add: zoom_def)
  show "lvms_validator SCHEMA_EXTRACT = Inl ShapeMismatch"
    by (simp add: lvms_validator_def cv_positive_time_period_milliseconds_def)
qed

text \<open>
  C4, amended. Every validator that tests for the documentation sentinel (opacity, colour,
  pixels or percent, size, radius, identifier name, font) returns, given the sentinel, the
  description of its accepted shapes, raises no error and leaves the three accumulators
  \<open>lv_fonts_used\<close>, \<open>esphome_fonts_used\<close> and \<open>lvgl_components_required\<close> as they were,
  whatever they held before.
\<close>

theorem describe_mode:
  "pure_validator (opacity_validator to_upper) SCHEMA_EXTRACT reg =
     (Inr (PTuple [PStr ''TRANSP'', PStr ''COVER'']), reg)
   \<and> pure_validator (color declared) SCHEMA_EXTRACT reg =
     (Inr (PList [PStr ''hex color value'', PStr ''color ID'']), reg)
   \<and> pure_validator pixels_or_percent_validator SCHEMA_EXTRACT reg =
     (Inr (PList [PStr ''pixels'', PStr ''..%'']), reg)
   \<and> pure_validator (size_validator to_upper to_lower) SCHEMA_EXTRACT reg =
     (Inr (PList [PStr ''size_content'', PStr ''pixels'', PStr ''..%'']), reg)
   \<and> pure_validator (radius_validator to_upper to_lower) SCHEMA_EXTRACT reg =
     (Inr (PTuple [PStr ''CIRCLE'']), reg)
   \<and> pure_validator (id_name validate_id_name) SCHEMA_EXTRACT reg = (Inr (PStr ''id''), reg)
   \<and> LvFont_validator to_lower LV_FONTS declared SCHEMA_EXTRACT reg =
     (Inr (PList (map PStr LV_FONTS)), reg)"
proof (intro conjI)
  show "pure_validator (opacity_validator to_upper) SCHEMA_EXTRACT reg =
          (Inr (PTuple [PStr ''TRANSP'', PStr ''COVER'']), reg)"
    by (simp add: pure_validator_def opacity_validator_def opacity_consts_choices_def)
  show "pure_validator (color declared) SCHEMA_EXTRACT reg =
          (Inr (PList [PStr ''hex color value'', PStr ''color ID'']), reg)"
    by (simp add: pure_validator_def color_def)
  show "pure_validator pixels_or_percent_validator SCHEMA_EXTRACT reg =
          (Inr (PList [PStr ''pixels'', PStr ''..%'']), reg)"
    by (simp add: pure_validator_def pixels_or_percent_validator_def)
  show "pure_validator (size_validator to_upper to_lower) SCHEMA_EXTRACT reg =
          (Inr (PList [PStr ''size_content'', PStr ''pixels'', PStr ''..%'']), reg)"
    by (simp add: pure_validator_def size_validator_def)
  show "pure_validator (radius_validator to_upper to_lower) SCHEMA_EXTRACT reg =
          (Inr (PTuple [PStr ''CIRCLE'']), reg)"
    by (simp add: pure_validator_def radius_validator_def radius_consts_choices_def)
  show "pure_validator (id_name validate_id_name) SCHEMA_EXTRACT reg = (Inr (PStr ''id''), reg)"
    by (simp add: pure_validator_def id_name_def)
  show "LvFont_validator to_lower LV_FONTS declared SCHEMA_EXTRACT reg =
          (Inr (PList (map PStr LV_FONTS)), reg)"
    by (simp add: LvFont_validator_def)
qed

section \<open>Fonts\<close>

lemma replace_spaces_no_space: "CHR '' '' \<notin> set s \<Longrightarrow> replace_spaces s = s"
  by (induction s) (auto simp: replace_spaces_def)

lemma LvFont_validator_twice:
  "LvFont_validator to_lower LV_FONTS declared v
     (snd (LvFont_validator to_lower LV_FONTS declared v reg)) =
     (fst (LvFont_validator to_lower LV_FONTS declared v reg),
      snd (LvFont_validator to_lower LV_FONTS declared v reg))"
  by (auto simp: LvFont_validator_def lv_builtin_font_def requires_component_def
      split: sum.splits)

lemma builtin_font_recorded:
  assumes "py_lower to_lower s \<in> set LV_FONTS"
    and "py_lower to_lower (replace_spaces s) \<in> set LV_FONTS"
  shows "LvFont_validator to_lower LV_FONTS declared (PStr s) reg =
           (Inr (PStr (py_lower to_lower (replace_spaces s))),
            reg\<lparr>lv_fonts_used :=
                  insert (PStr (py_lower to_lower (replace_spaces s))) (lv_fonts_used reg)\<rparr>)"
proof -
  have f: "is_lv_font to_lower LV_FONTS (PStr s)"
    using assms(1) by (simp add: is_lv_font_def)
  have o: "cv_one_of LV_FONTS (py_lower to_lower) (PStr s) =
             Inr (PStr (py_lower to_lower (replace_spaces s)))"
    using assms(2) by (simp add: cv_one_of_def)
  show ?thesis
    using f by (simp add: LvFont_validator_def lv_builtin_font_def o)
qed

lemma builtin_font_rejected:
  assumes "py_lower to_lower s \<in> set LV_FONTS"
    and "py_lower to_lower (replace_spaces s) \<notin> set LV_FONTS"
  shows "LvFont_validator to_lower LV_FONTS declared (PStr s) reg = (Inl UnknownConstant, reg)"
proof -
  have f: "is_lv_font to_lower LV_FONTS (PStr s)"
    using assms(1) by (simp add: is_lv_font_def)
  have o: "cv_one_of LV_FONTS (py_lower to_lower) (PStr s) = Inl UnknownConstant"
    using assms(2) by (simp add: cv_one_of_def)
  show ?thesis
    using f by (simp add: LvFont_validator_def lv_builtin_font_def o)
qed

text \<open>
  C5. A text that \<open>str.lower()\<close> maps to a built-in font name is validated as that
  font: the name (the lowered text, spaces replaced by underscores) is returned and
  recorded in \<open>lv_fonts_used\<close>, and nothing else changes; validating the same text a
  second time, on the accumulators the first validation left, returns the same and leaves
  them as they are, so that the set has grown by exactly one element when the name was
  not in it. In particular, with \<open>montserrat_14\<close> among the built-in fonts,
  \<open>font("montserrat_14")\<close> records \<open>montserrat_14\<close>. For any value at all, a second
  validation leaves the accumulators as the first one left them. A value that is no
  built-in font and whose lookup with \<open>cv.use_id(Font)\<close> fails raises that error, the
  unknown-reference error, and leaves all accumulators as they were.
\<close>

theorem font_registries:
  "(py_lower to_lower s \<in> set LV_FONTS
      \<and> py_lower to_lower (replace_spaces s) \<in> set LV_FONTS \<longrightarrow>
      LvFont_validator to_lower LV_FONTS declared (PStr s) reg =
        (Inr (PStr (py_lower to_lower (replace_spaces s))),
         reg\<lparr>lv_fonts_used :=
               insert (PStr (py_lower to_lower (replace_spaces s))) (lv_fonts_used reg)\<rparr>)
      \<and> LvFont_validator to_lower LV_FONTS declared (PStr s)
            (snd (LvFont_validator to_lower LV_FONTS declared (PStr s) reg)) =
        (Inr (PStr (py_lower to_lower (replace_spaces s))),
         reg\<lparr>lv_fonts_used :=
               insert (PStr (py_lower to_lower (replace_spaces s))) (lv_fonts_used reg)\<rparr>)
      \<and> (PStr (py_lower to_lower (replace_spaces s)) \<in> lv_fonts_used reg \<longrightarrow>
            snd (LvFont_validator to_lower LV_FONTS declared (PStr s) reg) = reg)
      \<and> (finite (lv_fonts_used reg)
            \<and> PStr (py_lower to_lower (replace_spaces s)) \<notin> lv_fonts_used reg \<longrightarrow>
            card (lv_fonts_used
                   (snd (LvFont_validator to_lower LV_FONTS declared (PStr s)
                      (snd (LvFont_validator to_lower LV_FONTS declared (PStr s) reg))))) =
              card (lv_fonts_used reg) + 1))
   \<and> (py_lower to_lower n \<in> set LV_FONTS \<and> CHR '' '' \<notin> set n \<longrightarrow>
        LvFont_validator to_lower LV_FONTS declared (PStr n) reg =
          (Inr (PStr (py_lower to_lower n)),
           reg\<lparr>lv_fonts_used := insert (PStr (py_lower to_lower n)) (lv_fonts_used reg)\<rparr>))
   \<and> (''montserrat_14'' \<in> set LV_FONTS \<longrightarrow>
        LvFont_validator to_lower LV_FONTS declared (PStr ''montserrat_14'') reg =
          (Inr (PStr ''montserrat_14''),
           reg\<lparr>lv_fonts_used := insert (PStr ''montserrat_14'') (lv_fonts_used reg)\<rparr>))
   \<and> snd (LvFont_validator to_lower LV_FONTS declared w
             (snd (LvFont_validator to_lower LV_FONTS declared w reg))) =
       snd (LvFont_validator to_lower LV_FONTS declared w reg)
   \<and> (v \<noteq> SCHEMA_EXTRACT \<and> \<not> is_lv_font to_lower LV_FONTS v
        \<and> cv_use_id declared Font v = Inl e \<longrightarrow>
        e = UnknownReference
        \<and> LvFont_validator to_lower LV_FONTS declared v reg = (Inl e, reg))"
proof (intro conjI impI)
  show "snd (LvFont_validator to_lower LV_FONTS declared w
             (snd (LvFont_validator to_lower LV_FONTS declared w reg))) =
       snd (LvFont_validator to_lower LV_FONTS declared w reg)"
    by (simp add: LvFont_validator_twice)
next
  assume a: "py_lower to_lower s \<in> set LV_FONTS
      \<and> py_lower to_lower (replace_spaces s) \<in> set LV_FONTS"
  define t where "t = PStr (py_lower to_lower (replace_spaces s))"
  have m: "LvFont_validator to_lower LV_FONTS declared (PStr s) r =
             (Inr t, r\<lparr>lv_fonts_used := insert t (lv_fonts_used r)\<rparr>)" for r
    unfolding t_def using a by (intro builtin_font_recorded) simp_all
  show "LvFont_validator to_lower LV_FONTS declared (PStr s) reg =
        (Inr (PStr (py_lower to_lower (replace_spaces s))),
         reg\<lparr>lv_fonts_used :=
               insert (PStr (py_lower to_lower (replace_spaces s))) (lv_fonts_used reg)\<rparr>)"
    using m [of reg] by (simp add: t_def)
  show "LvFont_validator to_lower LV_FONTS declared (PStr s)
            (snd (LvFont_validator to_lower LV_FONTS declared (PStr s) reg)) =
        (Inr (PStr (py_lower to_lower (replace_spaces s))),
         reg\<lparr>lv_fonts_used :=
               insert (PStr (py_lower to_lower (replace_spaces s))) (lv_fonts_used reg)\<rparr>)"
    by (simp add: m t_def [symmetric])
  {
    assume "PStr (py_lower to_lower (replace_spaces s)) \<in> lv_fonts_used reg"
    then show "snd (LvFont_validator to_lower LV_FONTS declared (PStr s) reg) = reg"
      by (simp add: m t_def [symmetric] insert_absorb)
  }
  {
    assume "finite (lv_fonts_used reg)
            \<and> PStr (py_lower to_lower (replace_spaces s)) \<notin> lv_fonts_used reg"
    then show "card (lv_fonts_used
                   (snd (LvFont_validator to_lower LV_FONTS declared (PStr s)
                      (snd (LvFont_validator to_lower LV_FONTS declared (PStr s) reg))))) =
              card (lv_fonts_used reg) + 1"
      by (simp add: m t_def [symmetric])
  }
next
  assume a: "py_lower to_lower n \<in> set LV_FONTS \<and> CHR '' '' \<notin> set n"
  then have r: "replace_spaces n = n" by (simp add: replace_spaces_no_space)
  show "LvFont_validator to_lower LV_FONTS declared (PStr n) reg =
          (Inr (PStr (py_lower to_lower n)),
           reg\<lparr>lv_fonts_used := insert (PStr (py_lower to_lower n)) (lv_fonts_used reg)\<rparr>)"
    using builtin_font_recorded [where s = n and to_lower = to_lower and LV_FONTS = LV_FONTS]
      a by (simp add: r)
next
  assume a: "''montserrat_14'' \<in> set LV_FONTS"
  have l: "py_lower to_lower ''montserrat_14'' = ''montserrat_14''"
    "replace_spaces ''montserrat_14'' = ''montserrat_14''"
    by (simp_all add: text_simps)
  show "LvFont_validator to_lower LV_FONTS declared (PStr ''montserrat_14'') reg =
          (Inr (PStr ''montserrat_14''),
           reg\<lparr>lv_fonts_used := insert (PStr ''montserrat_14'') (lv_fonts_used reg)\<rparr>)"
    using builtin_font_recorded [where s = "''montserrat_14''" and to_lower = to_lower
        and LV_FONTS = LV_FONTS] a
    by (simp add: l)
next
  assume a: "v \<noteq> SCHEMA_EXTRACT \<and> \<not> is_lv_font to_lower LV_FONTS v
        \<and> cv_use_id declared Font v = Inl e"
  then show "e = UnknownReference"
    by (auto simp: cv_use_id_def split: pyval.splits if_splits)
  from a show "LvFont_validator to_lower LV_FONTS declared v reg = (Inl e, reg)"
    by (simp add: LvFont_validator_def)
qed

text \<open>
  The witness takes the built-in fonts \<open>montserrat_12\<close>, \<open>montserrat_14\<close> and
  \<open>kelvin\<close>, accumulators that hold \<open>montserrat_12\<close>, the text \<open>Montserrat_14\<close>, and,
  beyond ASCII, the text \<open>kelvin\<close> written with the Kelvin sign (U+212A, the bytes E2 84
  AA), which \<open>str.lower()\<close> maps to \<open>kelvin\<close>.
\<close>

theorem font_registries_witness:
  "py_lower (\<lambda>s. if s = [CHR 0xE2, CHR 0x84, CHR 0xAA] @ ''elvin'' then ''kelvin'' else s)
      ''Montserrat_14'' \<in> set [''montserrat_12'', ''montserrat_14'', ''kelvin'']
   \<and> py_lower (\<lambda>s. if s = [CHR 0xE2, CHR 0x84, CHR 0xAA] @ ''elvin'' then ''kelvin'' else s)
      (replace_spaces ''Montserrat_14'') \<in> set [''montserrat_12'', ''montserrat_14'', ''kelvin'']
   \<and> finite {PStr ''montserrat_12''} \<and> PStr ''montserrat_14'' \<notin> {PStr ''montserrat_12''}
   \<and> lv_fonts_used (snd (LvFont_validator
        (\<lambda>s. if s = [CHR 0xE2, CHR 0x84, CHR 0xAA] @ ''elvin'' then ''kelvin'' else s)
        [''montserrat_12'', ''montserrat_14'', ''kelvin''] Map.empty (PStr ''Montserrat_14'')
        (snd (LvFont_validator
           (\<lambda>s. if s = [CHR 0xE2, CHR 0x84, CHR 0xAA] @ ''elvin'' then ''kelvin'' else s)
           [''montserrat_12'', ''montserrat_14'', ''kelvin''] Map.empty (PStr ''Montserrat_14'')
           \<lparr>lv_fonts_used = {PStr ''montserrat_12''}, esphome_fonts_used = {},
            lvgl_components_required = {}\<rparr>)))) =
      {PStr ''montserrat_12'', PStr ''montserrat_14''}
   \<and> py_lower (\<lambda>s. if s = [CHR 0xE2, CHR 0x84, CHR 0xAA] @ ''elvin'' then ''kelvin'' else s)
      ([CHR 0xE2, CHR 0x84, CHR 0xAA] @ ''elvin'')
        \<in> set [''montserrat_12'', ''montserrat_14'', ''kelvin'']
   \<and> CHR '' '' \<notin> set ([CHR 0xE2, CHR 0x84, CHR 0xAA] @ ''elvin'')
   \<and> LvFont_validator
        (\<lambda>s. if s = [CHR 0xE2, CHR 0x84, CHR 0xAA] @ ''elvin'' then ''kelvin'' else s)
        [''montserrat_12'', ''montserrat_14'', ''kelvin''] Map.empty
        (PStr ([CHR 0xE2, CHR 0x84, CHR 0xAA] @ ''elvin''))
        \<lparr>lv_fonts_used = {PStr ''montserrat_12''}, esphome_fonts_used = {},
         lvgl_components_required = {}\<rparr> =
      (Inr (PStr ''kelvin''),
        \<lparr>lv_fonts_used = {PStr ''kelvin'', PStr ''montserrat_12''}, esphome_fonts_used = {},
         lvgl_components_required = {}\<rparr>)
   \<and> PStr ''montserrat_14'' \<in> {PStr ''montserrat_14''}
   \<and> snd (LvFont_validator
        (\<lambda>s. if s = [CHR 0xE2, CHR 0x84, CHR 0xAA] @ ''elvin'' then ''kelvin'' else s)
        [''montserrat_12'', ''montserrat_14'', ''kelvin''] Map.empty (PStr ''Montserrat_14'')
        \<lparr>lv_fonts_used = {PStr ''montserrat_14''}, esphome_fonts_used = {},
         lvgl_components_required = {}\<rparr>) =
      \<lparr>lv_fonts_used = {PStr ''montserrat_14''}, esphome_fonts_used = {},
       lvgl_components_required = {}\<rparr>
   \<and> ''montserrat_14'' \<in> set [''montserrat_12'', ''montserrat_14'', ''kelvin'']
   \<and> PStr ''roboto'' \<noteq> SCHEMA_EXTRACT
   \<and> \<not> is_lv_font
        (\<lambda>s. if s = [CHR 0xE2, CHR 0x84, CHR 0xAA] @ ''elvin'' then ''kelvin'' else s)
        [''montserrat_12'', ''montserrat_14'', ''kelvin''] (PStr ''roboto'')
   \<and> cv_use_id Map.empty Font (PStr ''roboto'') = Inl UnknownReference
   \<and> LvFont_validator
        (\<lambda>s. if s = [CHR 0xE2, CHR 0x84, CHR 0xAA] @ ''elvin'' then ''kelvin'' else s)
        [''montserrat_12'', ''montserrat_14'', ''kelvin''] Map.empty (PStr ''roboto'')
        \<lparr>lv_fonts_used = {PStr ''montserrat_12''}, esphome_fonts_used = {},
         lvgl_components_required = {}\<rparr> =
      (Inl UnknownReference,
        \<lparr>lv_fonts_used = {PStr ''montserrat_12''}, esphome_fonts_used = {},
         lvgl_components_required = {}\<rparr>)"
proof -
  define L where
    "L = (\<lambda>s. if s = [CHR 0xE2, CHR 0x84, CHR 0xAA] @ ''elvin'' then ''kelvin'' else s)"
  define F where "F = [''montserrat_12'', ''montserrat_14'', ''kelvin'']"
  define R where "R = \<lparr>lv_fonts_used = {PStr ''montserrat_12''}, esphome_fonts_used = {},
    lvgl_components_required = {}\<rparr>"
  have l: "py_lower L ''Montserrat_14'' = ''montserrat_14''"
    "replace_spaces ''Montserrat_14'' = ''Montserrat_14''"
    "py_lower L ([CHR 0xE2, CHR 0x84, CHR 0xAA] @ ''elvin'') = ''kelvin''"
    "CHR '' '' \<notin> set ([CHR 0xE2, CHR 0x84, CHR 0xAA] @ ''elvin'')"
    by (simp_all add: text_simps L_def)
  have n: "\<not> is_lv_font L F (PStr ''roboto'')"
    by (simp add: is_lv_font_def text_simps F_def)
  have u: "cv_use_id Map.empty Font (PStr ''roboto'') = Inl UnknownReference"
    by (simp add: cv_use_id_def)
  have f: "lv_fonts_used R = {PStr ''montserrat_12''}" by (simp add: R_def)
  note th = font_registries [where to_lower = L and LV_FONTS = F and declared = Map.empty
      and reg = R and s = "''Montserrat_14''"
      and n = "[CHR 0xE2, CHR 0x84, CHR 0xAA] @ ''elvin''"
      and w = PNone and v = "PStr ''roboto''" and e = UnknownReference]
  have 1: "lv_fonts_used (snd (LvFont_validator L F Map.empty (PStr ''Montserrat_14'')
        (snd (LvFont_validator L F Map.empty (PStr ''Montserrat_14'') R)))) =
      {PStr ''montserrat_12'', PStr ''montserrat_14''}"
    using th l by (auto simp: F_def f R_def)
  have 2: "LvFont_validator L F Map.empty (PStr ([CHR 0xE2, CHR 0x84, CHR 0xAA] @ ''elvin'')) R =
      (Inr (PStr ''kelvin''),
        \<lparr>lv_fonts_used = {PStr ''kelvin'', PStr ''montserrat_12''}, esphome_fonts_used = {},
         lvgl_components_required = {}\<rparr>)"
    using th l by (simp add: F_def R_def)
  have 3: "LvFont_validator L F Map.empty (PStr ''roboto'') R = (Inl UnknownReference, R)"
    using th n u by simp
  have 4: "snd (LvFont_validator L F Map.empty (PStr ''Montserrat_14'')
        \<lparr>lv_fonts_used = {PStr ''montserrat_14''}, esphome_fonts_used = {},
         lvgl_components_required = {}\<rparr>) =
      \<lparr>lv_fonts_used = {PStr ''montserrat_14''}, esphome_fonts_used = {},
       lvgl_components_required = {}\<rparr>"
    using font_registries [where to_lower = L and LV_FONTS = F and declared = Map.empty
      and reg = "\<lparr>lv_fonts_used = {PStr ''montserrat_14''}, esphome_fonts_used = {},
         lvgl_components_required = {}\<rparr>" and s = "''Montserrat_14''"] l
    by (simp add: F_def)
  show ?thesis
    using 1 2 3 4 l n u unfolding L_def F_def R_def by simp
qed

section \<open>Text\<close>

text \<open>
  C6. For a map with the keys \<open>format\<close> and \<open>args\<close>, the emission of the text validator
  is the text \<open>str_sprintf(F, A).c_str()\<close>, where \<open>F\<close> is the escaped format string and
  \<open>A\<close> the texts of the arguments joined by commas; the text of an argument that is a
  string or a lambda is the argument itself. A plain string, such as \<open>"hello"\<close>, is
  emitted as a string literal, which is rendered escaped.
\<close>

theorem text_emission:
  "(map_of d CONF_ARGS = Some (PList xs) \<and> map_of d CONF_FORMAT = Some (PStr fmt) \<longrightarrow>
      TextValidator_process other (PDict d) =
        Inr (PStr (''str_sprintf('' @ cpp_string_escape fmt @ '', '' @
                   join '','' (map (py_str other) xs) @ '').c_str()'')))
   \<and> py_str other (PStr a) = a
   \<and> py_str other (Lambda a) = a
   \<and> TextValidator_process other
        (PDict [(''format'', PStr ''%d items''), (''args'', PList [Lambda ''x''])]) =
      Inr (PStr (''str_sprintf('' @ [CHR 0x22] @ ''%d items'' @ [CHR 0x22] @ '', x).c_str()''))
   \<and> cpp_string_escape (''a'' @ [CHR 0x22] @ ''b'') =
        [CHR 0x22] @ ''a'' @ [CHR 0x5C] @ ''042b'' @ [CHR 0x22]
   \<and> TextValidator_process other (PStr s) = Inr (StringLiteral s)
   \<and> py_str other (StringLiteral s) = cpp_string_escape s
   \<and> TextValidator_process other (PStr ''hello'') = Inr (StringLiteral ''hello'')
   \<and> py_str other (StringLiteral ''hello'') = [CHR 0x22] @ ''hello'' @ [CHR 0x22]"
proof (intro conjI impI)
  assume "map_of d CONF_ARGS = Some (PList xs) \<and> map_of d CONF_FORMAT = Some (PStr fmt)"
  then show "TextValidator_process other (PDict d) =
        Inr (PStr (''str_sprintf('' @ cpp_string_escape fmt @ '', '' @
                   join '','' (map (py_str other) xs) @ '').c_str()''))"
    by (simp add: TextValidator_process_def)
next
  show "py_str other (PStr a) = a" and "py_str other (Lambda a) = a"
    by simp_all
  have q: "cpp_string_escape ''%d items'' = [CHR 0x22] @ ''%d items'' @ [CHR 0x22]"
    by (simp add: cpp_string_escape_def should_escape_def)
  show "TextValidator_process other
        (PDict [(''format'', PStr ''%d items''), (''args'', PList [Lambda ''x''])]) =
      Inr (PStr (''str_sprintf('' @ [CHR 0x22] @ ''%d items'' @ [CHR 0x22] @ '', x).c_str()''))"
    by (simp add: TextValidator_process_def CONF_ARGS_def CONF_FORMAT_def q)
  show "cpp_string_escape (''a'' @ [CHR 0x22] @ ''b'') =
        [CHR 0x22] @ ''a'' @ [CHR 0x5C] @ ''042b'' @ [CHR 0x22]"
    by (simp add: cpp_string_escape_def should_escape_def octal3_def)
  show plain: "TextValidator_process other (PStr s) = Inr (StringLiteral s)" for s
    by (simp add: TextValidator_process_def LValidator_process_def TextValidator_retmapper_def)
  show "py_str other (StringLiteral s) = cpp_string_escape s"
    by simp
  show "TextValidator_process other (PStr ''hello'') = Inr (StringLiteral ''hello'')"
    by (rule plain)
  show "py_str other (StringLiteral ''hello'') = [CHR 0x22] @ ''hello'' @ [CHR 0x22]"
    by (simp add: cpp_string_escape_def should_escape_def)
qed

theorem text_emission_witness:
  "map_of [(''format'', PStr ''%s: %d''), (''args'', PList [PStr ''name'', PInt 3])] CONF_ARGS =
     Some (PList [PStr ''name'', PInt 3])
   \<and> map_of [(''format'', PStr ''%s: %d''), (''args'', PList [PStr ''name'', PInt 3])] CONF_FORMAT =
     Some (PStr ''%s: %d'')
   \<and> TextValidator_process (\<lambda>v. ''?'')
        (PDict [(''format'', PStr ''%s: %d''), (''args'', PList [PStr ''name'', PInt 3])]) =
      Inr (PStr (''str_sprintf('' @ [CHR 0x22] @ ''%s: %d'' @ [CHR 0x22] @ '', name,3).c_str()''))"
  using text_emission [of "[(''format'', PStr ''%s: %d''), (''args'', PList [PStr ''name'', PInt 3])]"
      "[PStr ''name'', PInt 3]" "''%s: %d''" "\<lambda>v. ''?''"]
  by (simp add: CONF_ARGS_def CONF_FORMAT_def cpp_string_escape_def should_escape_def
      str_int_def str_nat.simps)

text \<open>
  C9. The validation step of the text validator returns every dict unchanged, whatever
  its keys are; a dict without the key \<open>args\<close>, or with it and without the key
  \<open>format\<close>, is rejected only by the emission, with a \<open>KeyError\<close>.
\<close>

theorem text_dict_unchecked:
  "TextValidator_call (PDict d) = Inr (PDict d)
   \<and> (map_of d CONF_ARGS = None \<longrightarrow>
        TextValidator_process other (PDict d) = Inl (KeyError CONF_ARGS))
   \<and> (map_of d CONF_ARGS = Some a \<and> py_iter a = Inr xs \<and> map_of d CONF_FORMAT = None \<longrightarrow>
        TextValidator_process other (PDict d) = Inl (KeyError CONF_FORMAT))"
proof (intro conjI impI)
  show "TextValidator_call (PDict d) = Inr (PDict d)"
    by (simp add: TextValidator_call_def)
next
  assume "map_of d CONF_ARGS = None"
  then show "TextValidator_process other (PDict d) = Inl (KeyError CONF_ARGS)"
    by (simp add: TextValidator_process_def)
next
  assume "map_of d CONF_ARGS = Some a \<and> py_iter a = Inr xs \<and> map_of d CONF_FORMAT = None"
  then show "TextValidator_process other (PDict d) = Inl (KeyError CONF_FORMAT)"
    by (simp add: TextValidator_process_def)
qed

theorem text_dict_unchecked_witness:
  "TextValidator_call (PDict [(''foo'', PInt 1)]) = Inr (PDict [(''foo'', PInt 1)])
   \<and> map_of [(''foo'', PInt 1)] CONF_ARGS = None
   \<and> TextValidator_process (\<lambda>v. ''?'') (PDict [(''foo'', PInt 1)]) = Inl (KeyError ''args'')
   \<and> TextValidator_call (PDict [(''args'', PList [])]) = Inr (PDict [(''args'', PList [])])
   \<and> map_of [(''args'', PList [])] CONF_ARGS = Some (PList []) \<and> py_iter (PList []) = Inr []
   \<and> map_of [(''args'', PList [])] CONF_FORMAT = None
   \<and> TextValidator_process (\<lambda>v. ''?'') (PDict [(''args'', PList [])]) = Inl (KeyError ''format'')"
  using text_dict_unchecked [of "[(''foo'', PInt 1)]" "\<lambda>v. ''?''"]
    text_dict_unchecked [of "[(''args'', PList [])]" "\<lambda>v. ''?''" "PList []" "[]"]
  by (simp add: CONF_ARGS_def CONF_FORMAT_def)

section \<open>Durations\<close>

lemmas time_simps =
  cv_positive_time_period_milliseconds_def parse_time_period_def parse_decimal_def
  parse_nat_def is_dec_def digit_val_def time_units_def is_space_def

text \<open>
  C7. The milliseconds validator maps \<open>"never"\<close> to the duration of 2147483647
  milliseconds, which is \<open>2^31 - 1\<close>, the largest signed 32-bit value; any other value is
  validated as it is, and an accepted duration is returned as its number of whole
  milliseconds.
\<close>

theorem never_is_int32_max:
  "lvms_validator (PStr ''never'') = Inr (TimePeriodMilliseconds 2147483647)
   \<and> lv_milliseconds_retmapper (TimePeriodMilliseconds 2147483647) = Inr (PInt (2 ^ 31 - 1))
   \<and> (v \<noteq> PStr ''never'' \<longrightarrow> lvms_validator v = cv_positive_time_period_milliseconds v)
   \<and> (s \<noteq> ''never'' \<and> parse_time_period s = Some ms \<and> 0 \<le> ms \<and> of_int \<lfloor>ms\<rfloor> = ms \<longrightarrow>
        lvms_validator (PStr s) = Inr (TimePeriodMilliseconds \<lfloor>ms\<rfloor>)
        \<and> lv_milliseconds_retmapper (TimePeriodMilliseconds \<lfloor>ms\<rfloor>) = Inr (PInt \<lfloor>ms\<rfloor>))
   \<and> lvms_validator (PStr ''500ms'') = Inr (TimePeriodMilliseconds 500)
   \<and> lvms_validator (PStr ''2s'') = Inr (TimePeriodMilliseconds 2000)"
proof (intro conjI impI)
  have "parse_time_period ''2147483647ms'' = Some 2147483647"
    by (simp add: time_simps)
  then have "cv_positive_time_period_milliseconds (PStr ''2147483647ms'') =
               Inr (TimePeriodMilliseconds 2147483647)"
    by (simp add: cv_positive_time_period_milliseconds_def)
  then show "lvms_validator (PStr ''never'') = Inr (TimePeriodMilliseconds 2147483647)"
    by (simp add: lvms_validator_def)
  show "lv_milliseconds_retmapper (TimePeriodMilliseconds 2147483647) = Inr (PInt (2 ^ 31 - 1))"
    by (simp add: lv_milliseconds_retmapper_def)
  show "lvms_validator (PStr ''500ms'') = Inr (TimePeriodMilliseconds 500)"
    by (simp add: lvms_validator_def time_simps)
  show "lvms_validator (PStr ''2s'') = Inr (TimePeriodMilliseconds 2000)"
    by (simp add: lvms_validator_def time_simps)
next
  assume "v \<noteq> PStr ''never''"
  then show "lvms_validator v = cv_positive_time_period_milliseconds v"
    by (simp add: lvms_validator_def)
next
  assume a: "s \<noteq> ''never'' \<and> parse_time_period s = Some ms \<and> 0 \<le> ms \<and> of_int \<lfloor>ms\<rfloor> = ms"
  then have "lvms_validator (PStr s) = cv_positive_time_period_milliseconds (PStr s)"
    by (simp add: lvms_validator_def)
  also have "\<dots> = Inr (TimePeriodMilliseconds \<lfloor>ms\<rfloor>)"
    using a by (simp add: cv_positive_time_period_milliseconds_def)
  finally show "lvms_validator (PStr s) = Inr (TimePeriodMilliseconds \<lfloor>ms\<rfloor>)" .
  show "lv_milliseconds_retmapper (TimePeriodMilliseconds \<lfloor>ms\<rfloor>) = Inr (PInt \<lfloor>ms\<rfloor>)"
    by (simp add: lv_milliseconds_retmapper_def)
qed

theorem never_is_int32_max_witness:
  "PStr ''3s'' \<noteq> PStr ''never''
   \<and> lvms_validator (PStr ''3s'') = cv_positive_time_period_milliseconds (PStr ''3s'')
   \<and> ''1.5 min'' \<noteq> ''never'' \<and> parse_time_period ''1.5 min'' = Some 90000
   \<and> (0::rat) \<le> 90000 \<and> of_int \<lfloor>90000 :: rat\<rfloor> = (90000 :: rat)
   \<and> lvms_validator (PStr ''1.5 min'') = Inr (TimePeriodMilliseconds 90000)
   \<and> lv_milliseconds_retmapper (TimePeriodMilliseconds 90000) = Inr (PInt 90000)"
proof -
  have p: "parse_time_period ''1.5 min'' = Some 90000"
    by (simp add: time_simps)
  show ?thesis
    using never_is_int32_max [of "PStr ''3s''" "''1.5 min''" 90000] p
    by simp
qed

section \<open>Colours\<close>

text \<open>
  C10. The colour validator returns every integer unchanged, negative ones and those above
  \<open>0xFFFFFF\<close> included. The emission of an integer is the hex-colour construction and
  leaves the accumulators as they were, as does the emission of a lambda; only the
  remaining branch, for the reference to a declared entity, adds \<open>color\<close> to
  \<open>lvgl_components_required\<close>.
\<close>

theorem color_int_unchecked:
  "color declared (PInt i) = Inr (PInt i)
   \<and> color declared (PInt (- 1)) = Inr (PInt (- 1))
   \<and> color declared (PInt 0x1000000) = Inr (PInt 0x1000000)
   \<and> color_retmapper (PInt i) reg = (Inr (LvExpr ''color_hex'' [HexInt i]), reg)
   \<and> color_retmapper (Lambda src) reg = (Inr (Lambda src), reg)
   \<and> (\<not> isinstance_Lambda v \<and> \<not> isinstance_int v \<longrightarrow>
        color_retmapper v reg =
          (Inr (LvExpr ''color_from'' [MockObj v]),
           reg\<lparr>lvgl_components_required := insert ''color'' (lvgl_components_required reg)\<rparr>))
   \<and> (isinstance_Lambda v \<or> isinstance_int v \<longrightarrow> snd (color_retmapper v reg) = reg)"
proof (intro conjI impI)
  show "color declared (PInt i) = Inr (PInt i)" for i
    by (simp add: color_def)
  then show "color declared (PInt (- 1)) = Inr (PInt (- 1))"
    and "color declared (PInt 0x1000000) = Inr (PInt 0x1000000)"
    by blast+
  show "color_retmapper (PInt i) reg = (Inr (LvExpr ''color_hex'' [HexInt i]), reg)"
    by (simp add: color_retmapper_def)
  show "color_retmapper (Lambda src) reg = (Inr (Lambda src), reg)"
    by (simp add: color_retmapper_def cv_returning_lambda_def)
next
  assume "\<not> isinstance_Lambda v \<and> \<not> isinstance_int v"
  then show "color_retmapper v reg =
          (Inr (LvExpr ''color_from'' [MockObj v]),
           reg\<lparr>lvgl_components_required := insert ''color'' (lvgl_components_required reg)\<rparr>)"
    by (simp add: color_retmapper_def CONF_COLOR_def)
next
  assume "isinstance_Lambda v \<or> isinstance_int v"
  then show "snd (color_retmapper v reg) = reg"
    by (auto simp: color_retmapper_def)
qed

theorem color_int_unchecked_witness:
  "\<not> isinstance_Lambda (ID ''my_color'') \<and> \<not> isinstance_int (ID ''my_color'')
   \<and> color_retmapper (ID ''my_color'')
        \<lparr>lv_fonts_used = {}, esphome_fonts_used = {}, lvgl_components_required = {}\<rparr> =
      (Inr (LvExpr ''color_from'' [MockObj (ID ''my_color'')]),
       \<lparr>lv_fonts_used = {}, esphome_fonts_used = {}, lvgl_components_required = {''color''}\<rparr>)
   \<and> (isinstance_Lambda (PBool True) \<or> isinstance_int (PBool True))
   \<and> snd (color_retmapper (PBool True)
        \<lparr>lv_fonts_used = {}, esphome_fonts_used = {}, lvgl_components_required = {}\<rparr>) =
      \<lparr>lv_fonts_used = {}, esphome_fonts_used = {}, lvgl_components_required = {}\<rparr>"
  using color_int_unchecked [of declared 0 "\<lparr>lv_fonts_used = {}, esphome_fonts_used = {},
      lvgl_components_required = {}\<rparr>" src "ID ''my_color''"]
    color_int_unchecked [of declared 0 "\<lparr>lv_fonts_used = {}, esphome_fonts_used = {},
      lvgl_components_required = {}\<rparr>" src "PBool True"]
  by simp

end
